(* ===== verification/Prelude.thy ===== *)
theory Prelude
  imports Complex_Main "HOL-Library.Sublist" "HOL-Library.Word"
begin

text \<open>
  The JavaScript primitives that the screen \<open>src/app/(tabs)/index.tsx\<close> relies on,
  written once and shared by every component theory:
  \<^item> JavaScript numbers are modelled as \<open>real\<close> (exact arithmetic; IEEE rounding is not
    modelled), an optional number (\<open>number | undefined\<close> or \<open>number | null\<close>) as
    \<open>real option\<close>;
  \<^item> strings are HOL strings (\<open>char list\<close>); \<open>toLowerCase\<close> maps the ASCII letters;
  \<^item> \<open>s.includes(p)\<close> is \<open>str_includes s p\<close>, proved equal to the library's \<open>sublist\<close>;
  \<^item> \<open>x || 0\<close>, the falsiness test \<open>!x\<close>, \<open>Math.round\<close> and the printing of a number
    with at most one decimal (\<open>`${x}`\<close>) are the functions below.
  The collection \<open>js_eval\<close> gathers the facts that evaluate these primitives on
  literals, so that concrete scenarios are decided by \<open>simp add: js_eval\<close>.
\<close>

named_theorems js_eval "facts that evaluate the JavaScript primitives on literals"

type_synonym js_number = real

subsection \<open>Strings: toLowerCase, startsWith, includes\<close>

definition lower_char :: "char \<Rightarrow> char" where
  "lower_char c =
     (let n = (of_char c :: nat) in if 65 \<le> n \<and> n \<le> 90 then char_of (n + 32) else c)"

definition to_lower :: "string \<Rightarrow> string" where
  "to_lower s = map lower_char s"

fun starts_with :: "'a list \<Rightarrow> 'a list \<Rightarrow> bool" where
  "starts_with s [] = True"
| "starts_with [] (c # cs) = False"
| "starts_with (x # xs) (c # cs) = (x = c \<and> starts_with xs cs)"

fun str_includes :: "'a list \<Rightarrow> 'a list \<Rightarrow> bool" where
  "str_includes [] p = (p = [])"
| "str_includes (x # xs) p = (starts_with (x # xs) p \<or> str_includes xs p)"

subsection \<open>Numbers: \<open>x || 0\<close>, falsiness, Math.round\<close>

definition js_or0 :: "js_number option \<Rightarrow> js_number" where
  "js_or0 x = (case x of None \<Rightarrow> 0 | Some v \<Rightarrow> v)"

definition js_falsy_num :: "js_number option \<Rightarrow> bool" where
  "js_falsy_num x = (x = None \<or> x = Some 0)"

definition js_round :: "js_number \<Rightarrow> int" where
  "js_round x = \<lfloor>x + 1 / 2\<rfloor>"

subsection \<open>Printing a number with at most one decimal\<close>

definition digit_char :: "nat \<Rightarrow> char" where
  "digit_char d = char_of (48 + d)"

fun nat_digits :: "nat \<Rightarrow> string" where
  "nat_digits n =
     (if n < 10 then [digit_char n] else nat_digits (n div 10) @ [digit_char (n mod 10)])"

declare nat_digits.simps [simp del]

text \<open>
  \<open>show_tenths k\<close> is JavaScript's \<open>String(k / 10)\<close>: the integer part, and a
  decimal point with one digit when \<open>k\<close> is not a multiple of ten; a minus sign for
  negative values, none for zero (JavaScript prints \<open>-0\<close> as \<open>0\<close>).
\<close>

definition show_tenths :: "int \<Rightarrow> string" where
  "show_tenths k =
     (let a = nat \<bar>k\<bar>
      in (if k < 0 then ''-'' else []) @ nat_digits (a div 10) @
         (if a mod 10 = 0 then [] else [CHR ''.'', digit_char (a mod 10)]))"

text \<open>The reading side, a reference for what a printed distance denotes.\<close>

definition digit_val :: "char \<Rightarrow> nat option" where
  "digit_val c = (let n = (of_char c :: nat) in if 48 \<le> n \<and> n \<le> 57 then Some (n - 48) else None)"

fun read_digits :: "nat \<Rightarrow> string \<Rightarrow> nat option" where
  "read_digits acc [] = Some acc"
| "read_digits acc (c # cs) =
     (case digit_val c of None \<Rightarrow> None | Some d \<Rightarrow> read_digits (10 * acc + d) cs)"

definition read_nat :: "string \<Rightarrow> nat option" where
  "read_nat s = (if s = [] then None else read_digits 0 s)"

definition read_unsigned_tenths :: "string \<Rightarrow> int option" where
  "read_unsigned_tenths s =
     (let ip = takeWhile (\<lambda>c. c \<noteq> CHR ''.'') s; rest = dropWhile (\<lambda>c. c \<noteq> CHR ''.'') s
      in case rest of
           [] \<Rightarrow> map_option (\<lambda>n. 10 * int n) (read_nat ip)
         | _ # fp \<Rightarrow>
             (case (read_nat ip, fp) of
                (Some n, [c]) \<Rightarrow> map_option (\<lambda>d. 10 * int n + int d) (digit_val c)
              | _ \<Rightarrow> None))"

definition read_tenths :: "string \<Rightarrow> int option" where
  "read_tenths s =
     (case s of c # r \<Rightarrow> if c = CHR ''-'' then map_option uminus (read_unsigned_tenths r)
                         else read_unsigned_tenths s
              | [] \<Rightarrow> None)"

subsection \<open>Shared lemmas\<close>

lemma starts_with_iff_prefix: "starts_with s p \<longleftrightarrow> prefix p s"
  by (induction s p rule: starts_with.induct) auto

lemma includes_iff_sublist: "str_includes s p \<longleftrightarrow> sublist p s"
  by (induction s) (auto simp: starts_with_iff_prefix sublist_Cons_right)

lemma includes_append_middle [intro]: "str_includes (xs @ p @ ys) p"
  by (auto simp: includes_iff_sublist)

lemma length_to_lower [simp]: "length (to_lower s) = length s"
  by (simp add: to_lower_def)

lemma to_lower_Nil_iff [simp]: "to_lower s = [] \<longleftrightarrow> s = []"
  by (simp add: to_lower_def)

lemma to_lower_append [simp]: "to_lower (xs @ ys) = to_lower xs @ to_lower ys"
  by (simp add: to_lower_def)

lemma js_round_bounds: "x - 1 / 2 < real_of_int (js_round x) \<and> real_of_int (js_round x) \<le> x + 1 / 2"
  unfolding js_round_def by linarith

lemma digit_char_val [simp]: "d < 10 \<Longrightarrow> digit_val (digit_char d) = Some d"
  by (simp add: digit_val_def digit_char_def)

lemma of_char_digit_char [simp]: "d < 10 \<Longrightarrow> (of_char (digit_char d) :: nat) = 48 + d"
  by (simp add: digit_char_def)

lemma digit_char_not_dot [simp]: "d < 10 \<Longrightarrow> digit_char d \<noteq> CHR ''.''"
proof
  assume d: "d < 10" and eq: "digit_char d = CHR ''.''"
  from eq have "(of_char (digit_char d) :: nat) = of_char (CHR ''.'')" by simp
  with d show False by simp
qed

lemma digit_char_not_minus [simp]: "d < 10 \<Longrightarrow> digit_char d \<noteq> CHR ''-''"
proof
  assume d: "d < 10" and eq: "digit_char d = CHR ''-''"
  from eq have "(of_char (digit_char d) :: nat) = of_char (CHR ''-'')" by simp
  with d show False by simp
qed

lemma read_digits_append:
  "read_digits acc (xs @ ys) = Option.bind (read_digits acc xs) (\<lambda>a. read_digits a ys)"
  by (induction acc xs rule: read_digits.induct) (auto split: option.splits)

lemma nat_digits_ne [simp]: "nat_digits n \<noteq> []"
  by (subst nat_digits.simps) simp

lemma nat_digits_chars: "set (nat_digits n) \<subseteq> digit_char ` {..<10}"
proof (induction n rule: nat_digits.induct)
  case (1 n)
  show ?case
  proof (cases "n < 10")
    case True
    then show ?thesis by (simp add: nat_digits.simps [of n])
  next
    case False
    have "n mod 10 \<in> {..<10}" by simp
    with "1.IH" False show ?thesis by (simp add: nat_digits.simps [of n])
  qed
qed

lemma read_digits_nat_digits: "read_digits acc (nat_digits n) = Some (acc * 10 ^ length (nat_digits n) + n)"
proof (induction n arbitrary: acc rule: nat_digits.induct)
  case (1 n)
  show ?case
  proof (cases "n < 10")
    case True
    then show ?thesis by (simp add: nat_digits.simps [of n])
  next
    case False
    then have "read_digits acc (nat_digits n) =
      Option.bind (read_digits acc (nat_digits (n div 10))) (\<lambda>a. read_digits a [digit_char (n mod 10)])"
      by (simp add: nat_digits.simps [of n] read_digits_append)
    also have "\<dots> = Some ((acc * 10 ^ length (nat_digits (n div 10)) + n div 10) * 10 + n mod 10)"
      using "1.IH" False by simp
    also have "\<dots> = Some (acc * 10 ^ length (nat_digits n) + n)"
      using False by (simp add: nat_digits.simps [of n] algebra_simps)
    finally show ?thesis .
  qed
qed

lemma read_nat_nat_digits [simp]: "read_nat (nat_digits n) = Some n"
  by (simp add: read_nat_def read_digits_nat_digits)

lemma nat_digits_no_dot [simp]: "CHR ''.'' \<notin> set (nat_digits n)"
proof
  assume "CHR ''.'' \<in> set (nat_digits n)"
  then have "CHR ''.'' \<in> digit_char ` {..<10}" using nat_digits_chars [of n] by blast
  then show False by (metis digit_char_not_dot imageE lessThan_iff)
qed

lemma nat_digits_hd_not_minus [simp]: "nat_digits n = c # cs \<Longrightarrow> c \<noteq> CHR ''-''"
proof -
  assume "nat_digits n = c # cs"
  then have "c \<in> digit_char ` {..<10}" using nat_digits_chars [of n] by auto
  then show ?thesis by (metis digit_char_not_minus imageE lessThan_iff)
qed

lemma nat_digits_all_not_dot: "\<forall>x \<in> set (nat_digits n). x \<noteq> CHR ''.''"
  using nat_digits_no_dot by metis

lemma takeWhile_not_dot_digits:
  "takeWhile (\<lambda>c. c \<noteq> CHR ''.'') (nat_digits n @ ys) = nat_digits n @ takeWhile (\<lambda>c. c \<noteq> CHR ''.'') ys"
  by (rule takeWhile_append2) (use nat_digits_all_not_dot in blast)

lemma dropWhile_not_dot_digits:
  "dropWhile (\<lambda>c. c \<noteq> CHR ''.'') (nat_digits n @ ys) = dropWhile (\<lambda>c. c \<noteq> CHR ''.'') ys"
  by (rule dropWhile_append2) (use nat_digits_all_not_dot in blast)

lemma takeWhile_not_dot_digits_all: "takeWhile (\<lambda>c. c \<noteq> CHR ''.'') (nat_digits n) = nat_digits n"
  using nat_digits_all_not_dot by (simp add: takeWhile_eq_all_conv)

lemma dropWhile_not_dot_digits_all: "dropWhile (\<lambda>c. c \<noteq> CHR ''.'') (nat_digits n) = []"
  using nat_digits_all_not_dot by (simp add: dropWhile_eq_Nil_conv)

lemma read_unsigned_tenths_whole:
  assumes "a mod 10 = 0"
  shows "read_unsigned_tenths (nat_digits (a div 10)) = Some (int a)"
proof -
  have "read_unsigned_tenths (nat_digits (a div 10)) = Some (10 * int (a div 10))"
    by (simp add: read_unsigned_tenths_def takeWhile_not_dot_digits_all dropWhile_not_dot_digits_all)
  also have "10 * int (a div 10) = int a" using assms by presburger
  finally show ?thesis .
qed

lemma read_unsigned_tenths_fraction:
  assumes "a mod 10 \<noteq> 0"
  shows "read_unsigned_tenths (nat_digits (a div 10) @ [CHR ''.'', digit_char (a mod 10)]) = Some (int a)"
proof -
  have "read_unsigned_tenths (nat_digits (a div 10) @ [CHR ''.'', digit_char (a mod 10)])
          = Some (10 * int (a div 10) + int (a mod 10))"
    by (simp add: read_unsigned_tenths_def takeWhile_not_dot_digits dropWhile_not_dot_digits)
  also have "10 * int (a div 10) + int (a mod 10) = int a" by presburger
  finally show ?thesis .
qed

text \<open>A single step is a run of length one (for runs written with \<open>^^\<close>).\<close>

lemma relpowp_one_step:
  fixes P :: "'a \<Rightarrow> 'a \<Rightarrow> bool"
  assumes "P x y"
  shows "(P ^^ Suc 0) x y"
  using relpowp_Suc_I2 [OF assms relpowp_0_I [of P y]] .

lemmas js_eval_defs [js_eval] =
  to_lower_def lower_char_def char_of_eq_iff js_or0_def js_falsy_num_def js_round_def
  show_tenths_def digit_char_def


subsection \<open>Reading a printed tenths value back\<close>

text \<open>
  Printing a value counted in tenths loses nothing: reading the printed string back as
  a decimal with at most one fractional digit gives the value, negative ones and zero
  included.
\<close>

lemma read_show_tenths: "read_tenths (show_tenths k) = Some k"
proof -
  define a where "a = nat \<bar>k\<bar>"
  define u where
    "u = nat_digits (a div 10) @ (if a mod 10 = 0 then [] else [CHR ''.'', digit_char (a mod 10)])"
  have st: "show_tenths k = (if k < 0 then CHR ''-'' # u else u)"
    by (simp add: show_tenths_def a_def u_def Let_def)
  have ru: "read_unsigned_tenths u = Some (int a)"
    unfolding u_def using read_unsigned_tenths_whole read_unsigned_tenths_fraction by simp
  obtain c cs where u: "u = c # cs" and c: "c \<noteq> CHR ''-''"
  proof (cases "nat_digits (a div 10)")
    case Nil
    then show ?thesis by simp
  next
    case (Cons c cs)
    then show ?thesis using that [of c] by (simp add: u_def)
  qed
  show ?thesis
  proof (cases "k < 0")
    case True
    then show ?thesis using st ru by (simp add: read_tenths_def a_def)
  next
    case False
    then show ?thesis using st ru u c by (simp add: read_tenths_def a_def)
  qed
qed

end
