(* ===== verification/Labels.thy ===== *)
theory Labels
  imports Prelude
begin

text \<open>
  The data the vision service returns (the \<open>Label\<close>, \<open>Instance\<close> and \<open>BoundingBox\<close>
  shapes of the Rekognition \<open>DetectLabels\<close> response, every field optional as in the
  SDK's types) and the filter of \<open>takePicture\<close> that keeps the physical objects
  (\<open>src/app/(tabs)/index.tsx\<close>, lines 146--164): a label survives when its
  lower-cased name contains none of the excluded category words and it has at least
  one instance. The lemmas characterise the filter by the library's \<open>sublist\<close>
  relation, show that it keeps the input order, and record that substring matching
  also drops concrete objects whose names merely contain a category word.
\<close>

subsection \<open>The Rekognition response\<close>

record bounding_box =
  Width :: "js_number option"
  Height :: "js_number option"
  Left :: "js_number option"
  Top :: "js_number option"

record rek_instance =
  BoundingBox :: "bounding_box option"

record label =
  Name :: "string option"
  Confidence :: "js_number option"
  Instances :: "rek_instance list option"

subsection \<open>The physical-object filter\<close>

definition excludeCategories :: "string list" where
  "excludeCategories =
     [''interior design'', ''architecture'', ''room'', ''indoors'', ''outdoors'',
      ''building'', ''floor'', ''wall'', ''ceiling'', ''flooring'', ''hardwood'',
      ''wood'', ''lighting'', ''urban'', ''city'', ''nature'', ''scenery'', ''landscape'',
      ''housing'', ''shelter'', ''home decor'', ''art'', ''modern art'', ''abstract'']"

text \<open>\<open>label.Name?.toLowerCase() || ''\<close>: the name the filter tests.\<close>

definition filter_name :: "label \<Rightarrow> string" where
  "filter_name l = (case Name l of None \<Rightarrow> [] | Some n \<Rightarrow> to_lower n)"

definition is_physical :: "label \<Rightarrow> bool" where
  "is_physical l =
     (let name = filter_name l
      in if list_ex (\<lambda>cat. str_includes name cat) excludeCategories then False
         else (case Instances l of None \<Rightarrow> False | Some is \<Rightarrow> 0 < length is))"

definition physical_objects :: "label list \<Rightarrow> label list" where
  "physical_objects allLabels = filter is_physical allLabels"

subsection \<open>Reference predicates\<close>

text \<open>
  What the filter promises, stated without the search loop: a label is denylisted when
  one of the category words is a contiguous part of its lower-cased name, and it is
  located when it carries a non-empty instance list.
\<close>

definition denylisted :: "label \<Rightarrow> bool" where
  "denylisted l = (\<exists>cat \<in> set excludeCategories. sublist cat (filter_name l))"

definition located :: "label \<Rightarrow> bool" where
  "located l = (\<exists>i is. Instances l = Some (i # is))"

lemma is_physical_iff: "is_physical l \<longleftrightarrow> \<not> denylisted l \<and> located l"
  by (auto simp: is_physical_def denylisted_def located_def list_ex_iff includes_iff_sublist
      neq_Nil_conv split: option.splits)

lemma physical_objects_filter: "physical_objects ls = filter (\<lambda>l. \<not> denylisted l \<and> located l) ls"
  unfolding physical_objects_def by (rule filter_cong) (simp_all add: is_physical_iff)

lemma set_physical_objects [simp]:
  "set (physical_objects ls) = {l \<in> set ls. \<not> denylisted l \<and> located l}"
  by (auto simp: physical_objects_filter)

lemmas label_filter_eval [js_eval] =
  physical_objects_def is_physical_def filter_name_def excludeCategories_def

subsection \<open>Properties of the filter\<close>

text \<open>
  C3. A label whose lower-cased name contains one of the excluded category words is
  dropped, whatever its confidence and its instances.
\<close>

theorem denylisted_label_excluded:
  assumes "Name l = Some n" and "cat \<in> set excludeCategories" and "sublist cat (to_lower n)"
  shows "l \<notin> set (physical_objects ls)"
  using assms by (auto simp: denylisted_def filter_name_def)

theorem denylisted_label_excluded_witness:
  "Name \<lparr>Name = Some ''Living Room'', Confidence = Some 99, Instances = Some [\<lparr>BoundingBox = None\<rparr>]\<rparr>
     = Some ''Living Room''
   \<and> ''room'' \<in> set excludeCategories \<and> sublist ''room'' (to_lower ''Living Room'')
   \<and> \<lparr>Name = Some ''Living Room'', Confidence = Some 99, Instances = Some [\<lparr>BoundingBox = None\<rparr>]\<rparr>
       \<notin> set (physical_objects
                [\<lparr>Name = Some ''Living Room'', Confidence = Some 99, Instances = Some [\<lparr>BoundingBox = None\<rparr>]\<rparr>])"
proof -
  have h: "sublist ''room'' (to_lower ''Living Room'')"
    by (simp add: includes_iff_sublist [symmetric] js_eval)
  have c: "''room'' \<in> set excludeCategories"
    by (simp add: excludeCategories_def)
  show ?thesis
    using denylisted_label_excluded [OF _ c h,
        of "\<lparr>Name = Some ''Living Room'', Confidence = Some 99, Instances = Some [\<lparr>BoundingBox = None\<rparr>]\<rparr>"
           "[\<lparr>Name = Some ''Living Room'', Confidence = Some 99, Instances = Some [\<lparr>BoundingBox = None\<rparr>]\<rparr>]"]
      c h by simp
qed

text \<open>
  C4. A label without instances (the field absent or the list empty) is dropped, even
  when its name is eligible.
\<close>

theorem unlocated_label_excluded:
  assumes "Instances l = None \<or> Instances l = Some []"
  shows "l \<notin> set (physical_objects ls)"
  using assms by (auto simp: located_def)

theorem unlocated_label_excluded_witness:
  "Instances \<lparr>Name = Some ''Chair'', Confidence = Some 99, Instances = Some []\<rparr> = Some []
   \<and> \<lparr>Name = Some ''Chair'', Confidence = Some 99, Instances = Some []\<rparr>
       \<notin> set (physical_objects [\<lparr>Name = Some ''Chair'', Confidence = Some 99, Instances = Some []\<rparr>])"
  using unlocated_label_excluded
      [of "\<lparr>Name = Some ''Chair'', Confidence = Some 99, Instances = Some []\<rparr>"
          "[\<lparr>Name = Some ''Chair'', Confidence = Some 99, Instances = Some []\<rparr>]"]
  by simp

text \<open>
  C5. The filter keeps the vision service's order: its result is a subsequence of the
  input, and every label that is located and not denylisted is kept.
\<close>

theorem physical_objects_order:
  "subseq (physical_objects ls) ls \<and>
   (\<forall>l \<in> set ls. \<not> denylisted l \<and> located l \<longrightarrow> l \<in> set (physical_objects ls))"
  by (simp add: physical_objects_def is_physical_iff)

theorem physical_objects_order_witness:
  "subseq (physical_objects [\<lparr>Name = Some ''Chair'', Confidence = Some 99, Instances = Some [\<lparr>BoundingBox = None\<rparr>]\<rparr>])
          [\<lparr>Name = Some ''Chair'', Confidence = Some 99, Instances = Some [\<lparr>BoundingBox = None\<rparr>]\<rparr>]
   \<and> \<lparr>Name = Some ''Chair'', Confidence = Some 99, Instances = Some [\<lparr>BoundingBox = None\<rparr>]\<rparr>
       \<in> set (physical_objects [\<lparr>Name = Some ''Chair'', Confidence = Some 99, Instances = Some [\<lparr>BoundingBox = None\<rparr>]\<rparr>])"
proof -
  let ?c = "\<lparr>Name = Some ''Chair'', Confidence = Some 99, Instances = Some [\<lparr>BoundingBox = None\<rparr>]\<rparr>"
  have q: "\<not> denylisted ?c \<and> located ?c"
    by (simp add: denylisted_def located_def includes_iff_sublist [symmetric] js_eval)
  show ?thesis
    using physical_objects_order [of "[?c]"] q by simp
qed

end
