(* ===== verification/Box_Estimate.thy ===== *)
theory Box_Estimate
  imports Labels
begin

text \<open>
  The per-object estimate of \<open>takePicture\<close> (\<open>src/app/(tabs)/index.tsx\<close>, lines
  189--244): the first instance's bounding box gives a distance phrase from its area
  (lines 197--210) and a direction phrase from its centre (lines 214--242).
  Abstractly, the area falls in one of five ordered distance buckets and the centre in
  one of nine regions of the frame; the lemmas show that the code's phrases are exactly
  the phrases of the bucket and of the region, that nearer buckets belong to larger
  areas, and that every phrase names its region unambiguously.
\<close>

subsection \<open>Distance from the box area\<close>

definition box_area :: "bounding_box \<Rightarrow> js_number" where
  "box_area box = js_or0 (Width box) * js_or0 (Height box)"

definition distance_phrase :: "js_number \<Rightarrow> string" where
  "distance_phrase boxArea =
     (if boxArea > 0.3 then ''2 to 3 feet''
      else if boxArea > 0.15 then ''4 to 6 feet''
      else if boxArea > 0.08 then ''8 to 10 feet''
      else if boxArea > 0.04 then ''12 to 15 feet''
      else ''more than 15 feet'')"

subsection \<open>Direction from the box centre\<close>

definition center_x :: "bounding_box \<Rightarrow> js_number" where
  "center_x box = js_or0 (Left box) + js_or0 (Width box) / 2"

definition center_y :: "bounding_box \<Rightarrow> js_number" where
  "center_y box = js_or0 (Top box) + js_or0 (Height box) / 2"

definition horizontal_phrase :: "js_number \<Rightarrow> string" where
  "horizontal_phrase centerX =
     (if centerX < 0.3 then ''on your left''
      else if centerX > 0.7 then ''on your right''
      else ''in front of you'')"

definition vertical_phrase :: "js_number \<Rightarrow> string" where
  "vertical_phrase centerY =
     (if centerY < 0.3 then ''above'' else if centerY > 0.7 then ''below'' else [])"

definition combine_direction :: "string \<Rightarrow> string \<Rightarrow> string" where
  "combine_direction vertical horizontal =
     (if vertical \<noteq> [] \<and> horizontal \<noteq> ''in front of you'' then vertical @ '' and '' @ horizontal
      else if vertical \<noteq> [] then vertical @ '' '' @ horizontal
      else horizontal)"

definition direction_at :: "js_number \<Rightarrow> js_number \<Rightarrow> string" where
  "direction_at centerX centerY = combine_direction (vertical_phrase centerY) (horizontal_phrase centerX)"

definition direction_phrase :: "bounding_box \<Rightarrow> string" where
  "direction_phrase box = direction_at (center_x box) (center_y box)"

subsection \<open>The estimate of one label\<close>

text \<open>
  \<open>objectDistance\<close> and \<open>direction\<close> start empty and are set only when the label has a
  first instance with a bounding box.
\<close>

definition label_estimate :: "label \<Rightarrow> string \<times> string" where
  "label_estimate l =
     (case Instances l of
        Some (inst # _) \<Rightarrow>
          (case BoundingBox inst of
             Some box \<Rightarrow> (distance_phrase (box_area box), direction_phrase box)
           | None \<Rightarrow> ([], []))
      | _ \<Rightarrow> ([], []))"

subsection \<open>Abstract buckets and regions\<close>

datatype distance_bucket = Feet_2_3 | Feet_4_6 | Feet_8_10 | Feet_12_15 | Beyond_15

primrec bucket_rank :: "distance_bucket \<Rightarrow> nat" where
  "bucket_rank Feet_2_3 = 0"
| "bucket_rank Feet_4_6 = 1"
| "bucket_rank Feet_8_10 = 2"
| "bucket_rank Feet_12_15 = 3"
| "bucket_rank Beyond_15 = 4"

text \<open>Buckets are ordered from near to far.\<close>

instantiation distance_bucket :: linorder
begin

definition less_eq_distance_bucket :: "distance_bucket \<Rightarrow> distance_bucket \<Rightarrow> bool" where
  "a \<le> b \<longleftrightarrow> bucket_rank a \<le> bucket_rank b"

definition less_distance_bucket :: "distance_bucket \<Rightarrow> distance_bucket \<Rightarrow> bool" where
  "a < b \<longleftrightarrow> bucket_rank a < bucket_rank b"

instance
proof
  fix a b c :: distance_bucket
  show "a < b \<longleftrightarrow> a \<le> b \<and> \<not> b \<le> a"
    by (auto simp: less_eq_distance_bucket_def less_distance_bucket_def)
  show "a \<le> a"
    by (simp add: less_eq_distance_bucket_def)
  show "a \<le> b \<Longrightarrow> b \<le> c \<Longrightarrow> a \<le> c"
    by (simp add: less_eq_distance_bucket_def)
  show "a \<le> b \<Longrightarrow> b \<le> a \<Longrightarrow> a = b"
    by (cases a; cases b) (simp_all add: less_eq_distance_bucket_def)
  show "a \<le> b \<or> b \<le> a"
    by (auto simp: less_eq_distance_bucket_def)
qed

end

definition area_bucket :: "js_number \<Rightarrow> distance_bucket" where
  "area_bucket a =
     (if a > 0.3 then Feet_2_3 else if a > 0.15 then Feet_4_6 else if a > 0.08 then Feet_8_10
      else if a > 0.04 then Feet_12_15 else Beyond_15)"

primrec bucket_phrase :: "distance_bucket \<Rightarrow> string" where
  "bucket_phrase Feet_2_3 = ''2 to 3 feet''"
| "bucket_phrase Feet_4_6 = ''4 to 6 feet''"
| "bucket_phrase Feet_8_10 = ''8 to 10 feet''"
| "bucket_phrase Feet_12_15 = ''12 to 15 feet''"
| "bucket_phrase Beyond_15 = ''more than 15 feet''"

datatype hpos = HLeft | HCenter | HRight
datatype vpos = VAbove | VLevel | VBelow

definition hpos_of :: "js_number \<Rightarrow> hpos" where
  "hpos_of x = (if x < 0.3 then HLeft else if x > 0.7 then HRight else HCenter)"

definition vpos_of :: "js_number \<Rightarrow> vpos" where
  "vpos_of y = (if y < 0.3 then VAbove else if y > 0.7 then VBelow else VLevel)"

text \<open>The phrase table of the nine regions, as the design describes it.\<close>

fun region_phrase :: "vpos \<Rightarrow> hpos \<Rightarrow> string" where
  "region_phrase VLevel HLeft = ''on your left''"
| "region_phrase VLevel HCenter = ''in front of you''"
| "region_phrase VLevel HRight = ''on your right''"
| "region_phrase VAbove HLeft = ''above and on your left''"
| "region_phrase VAbove HCenter = ''above in front of you''"
| "region_phrase VAbove HRight = ''above and on your right''"
| "region_phrase VBelow HLeft = ''below and on your left''"
| "region_phrase VBelow HCenter = ''below in front of you''"
| "region_phrase VBelow HRight = ''below and on your right''"

text \<open>Reading a phrase back to its region.\<close>

definition region_of_phrase :: "string \<Rightarrow> (vpos \<times> hpos) option" where
  "region_of_phrase s =
     map_of [(region_phrase v h, (v, h)). v \<leftarrow> [VAbove, VLevel, VBelow], h \<leftarrow> [HLeft, HCenter, HRight]] s"

subsection \<open>The code computes the abstract estimate\<close>

lemma distance_phrase_bucket: "distance_phrase a = bucket_phrase (area_bucket a)"
  by (simp add: distance_phrase_def area_bucket_def)

lemma area_bucket_antimono: "a1 \<le> a2 \<Longrightarrow> area_bucket a2 \<le> area_bucket a1"
  by (simp add: area_bucket_def less_eq_distance_bucket_def)

lemma horizontal_phrase_hpos: "horizontal_phrase x = region_phrase VLevel (hpos_of x)"
  by (simp add: horizontal_phrase_def hpos_of_def)

lemma direction_at_region: "direction_at x y = region_phrase (vpos_of y) (hpos_of x)"
  by (simp add: direction_at_def combine_direction_def vertical_phrase_def horizontal_phrase_def
      vpos_of_def hpos_of_def)

lemma region_of_phrase_inverse [simp]: "region_of_phrase (region_phrase v h) = Some (v, h)"
  by (cases v; cases h) (simp_all add: region_of_phrase_def)

lemma region_phrase_ne [simp]: "region_phrase v h \<noteq> []"
  by (cases v; cases h) simp_all

lemma bucket_phrase_inj: "bucket_phrase a = bucket_phrase b \<longleftrightarrow> a = b"
  by (cases a; cases b) simp_all

subsection \<open>Properties of the estimate\<close>

text \<open>
  C7. Distance buckets are monotone in the box area: a box that is not smaller is
  never placed in a farther bucket than a smaller one.
\<close>

theorem distance_monotone:
  assumes "a1 \<le> a2"
  shows "\<exists>b1 b2. distance_phrase a1 = bucket_phrase b1 \<and> distance_phrase a2 = bucket_phrase b2
                \<and> b2 \<le> b1"
  using area_bucket_antimono [OF assms] by (auto simp: distance_phrase_bucket)

theorem distance_monotone_witness:
  "(0.09::real) \<le> 0.2 \<and>
   (\<exists>b1 b2. distance_phrase 0.09 = bucket_phrase b1 \<and> distance_phrase 0.2 = bucket_phrase b2
            \<and> b2 \<le> b1)"
proof -
  have h: "(0.09::real) \<le> 0.2" by simp
  show ?thesis using h distance_monotone [OF h] by blast
qed

text \<open>
  C8. The direction phrase of a box names the region of its centre unambiguously:
  reading the phrase back gives the vertical and horizontal position of the centre.
\<close>

theorem direction_phrase_decodes:
  "region_of_phrase (direction_phrase box) = Some (vpos_of (center_y box), hpos_of (center_x box))"
  by (simp add: direction_phrase_def direction_at_region)

end
