(* ===== verification/Description.thy ===== *)
theory Description
  imports Box_Estimate
begin

text \<open>
  The synthesis of the spoken description in \<open>takePicture\<close>
  (\<open>src/app/(tabs)/index.tsx\<close>, lines 172--265): the fallback sentence when no physical
  object survived the filter; otherwise a leading sentence (the rounded LiDAR distance
  when a reading exists, \<open>Objects detected.\<close> otherwise), one clause per object of the
  first three, each with its name, its distance phrase (only when the reading is
  falsy: absent or zero) and its direction, and a final period.

  The abstract side is a \<open>narration\<close>: the lead value and a list of clauses with the
  bucket and region of each object. \<open>describe\<close> is proved to be the rendering of the
  narration \<open>narrate\<close> computes, for every input; the properties of the output (at most
  three objects, input order, suppression of per-object distances under a measured
  distance, the rounding of the measured distance) are then read off the narration.
\<close>

subsection \<open>The code\<close>

definition fallback_text :: string where
  "fallback_text =
     ''No specific objects detected. Try pointing at a clear object like a person, chair, or bottle.''"

definition lead_sentence :: "js_number option \<Rightarrow> string" where
  "lead_sentence realDistance =
     (case realDistance of
        Some d \<Rightarrow> ''Objects are approximately '' @ show_tenths (js_round (d * 10)) @ '' feet away. ''
      | None \<Rightarrow> ''Objects detected. '')"

text \<open>\<open>label.Name?.toLowerCase() || 'object'\<close>\<close>

definition display_name :: "label \<Rightarrow> string" where
  "display_name l =
     (case Name l of None \<Rightarrow> ''object'' | Some n \<Rightarrow> if to_lower n = [] then ''object'' else to_lower n)"

definition object_clause :: "js_number option \<Rightarrow> nat \<Rightarrow> label \<Rightarrow> string" where
  "object_clause realDistance index l =
     (let name = display_name l; (objectDistance, direction) = label_estimate l
      in (if index = 0 then ''I see a '' @ name else '', a '' @ name)
         @ (if objectDistance \<noteq> [] \<and> js_falsy_num realDistance
            then '' about '' @ objectDistance @ '' away'' else [])
         @ (if direction \<noteq> [] then '' '' @ direction else []))"

text \<open>The \<open>forEach\<close> over the top objects, appending to \<open>description\<close>.\<close>

fun append_clauses :: "js_number option \<Rightarrow> nat \<Rightarrow> label list \<Rightarrow> string \<Rightarrow> string" where
  "append_clauses realDistance index [] description = description"
| "append_clauses realDistance index (l # ls) description =
     append_clauses realDistance (Suc index) ls (description @ object_clause realDistance index l)"

definition describe :: "js_number option \<Rightarrow> label list \<Rightarrow> string" where
  "describe realDistance physicalObjects =
     (if length physicalObjects > 0 then
        (let topObjects = take 3 physicalObjects
         in append_clauses realDistance 0 topObjects (lead_sentence realDistance) @ ''.'')
      else fallback_text)"

subsection \<open>The abstract narration\<close>

record narr_clause =
  cl_name :: string
  cl_distance :: "distance_bucket option"
  cl_direction :: "(vpos \<times> hpos) option"

datatype narration = No_Objects | Narration "int option" "narr_clause list"

definition first_box :: "label \<Rightarrow> bounding_box option" where
  "first_box l = (case Instances l of Some (inst # _) \<Rightarrow> BoundingBox inst | _ \<Rightarrow> None)"

definition narrate_clause :: "js_number option \<Rightarrow> label \<Rightarrow> narr_clause" where
  "narrate_clause rd l =
     \<lparr>cl_name = display_name l,
      cl_distance = (if js_falsy_num rd then map_option (\<lambda>b. area_bucket (box_area b)) (first_box l)
                     else None),
      cl_direction = map_option (\<lambda>b. (vpos_of (center_y b), hpos_of (center_x b))) (first_box l)\<rparr>"

definition narrate :: "js_number option \<Rightarrow> label list \<Rightarrow> narration" where
  "narrate rd objs =
     (if objs = [] then No_Objects
      else Narration (map_option (\<lambda>d. js_round (d * 10)) rd) (map (narrate_clause rd) (take 3 objs)))"

primrec narration_clauses :: "narration \<Rightarrow> narr_clause list" where
  "narration_clauses No_Objects = []"
| "narration_clauses (Narration lead cs) = cs"

definition lead_text :: "int option \<Rightarrow> string" where
  "lead_text lead =
     (case lead of Some k \<Rightarrow> ''Objects are approximately '' @ show_tenths k @ '' feet away. ''
                 | None \<Rightarrow> ''Objects detected. '')"

definition render_clause :: "nat \<Rightarrow> narr_clause \<Rightarrow> string" where
  "render_clause i c =
     (if i = 0 then ''I see a '' else '', a '') @ cl_name c
     @ (case cl_distance c of Some b \<Rightarrow> '' about '' @ bucket_phrase b @ '' away'' | None \<Rightarrow> [])
     @ (case cl_direction c of Some (v, h) \<Rightarrow> '' '' @ region_phrase v h | None \<Rightarrow> [])"

fun render_clauses :: "nat \<Rightarrow> narr_clause list \<Rightarrow> string" where
  "render_clauses i [] = []"
| "render_clauses i (c # cs) = render_clause i c @ render_clauses (Suc i) cs"

primrec render :: "narration \<Rightarrow> string" where
  "render No_Objects = fallback_text"
| "render (Narration lead cs) = lead_text lead @ render_clauses 0 cs @ ''.''"

subsection \<open>Lemmas\<close>

lemma label_estimate_first_box:
  "label_estimate l =
     (case first_box l of Some b \<Rightarrow> (distance_phrase (box_area b), direction_phrase b) | None \<Rightarrow> ([], []))"
  by (simp add: label_estimate_def first_box_def split: option.split list.split)

lemma bucket_phrase_ne [simp]: "bucket_phrase b \<noteq> []"
  by (cases b) simp_all

lemma object_clause_render: "object_clause rd i l = render_clause i (narrate_clause rd l)"
  by (simp add: object_clause_def render_clause_def narrate_clause_def label_estimate_first_box
      distance_phrase_bucket direction_phrase_def direction_at_region split: option.split)

lemma append_clauses_render:
  "append_clauses rd i ls d = d @ render_clauses i (map (narrate_clause rd) ls)"
  by (induction ls arbitrary: i d) (simp_all add: object_clause_render)

lemma lead_sentence_text: "lead_sentence rd = lead_text (map_option (\<lambda>d. js_round (d * 10)) rd)"
  by (simp add: lead_sentence_def lead_text_def split: option.split)

lemma fallback_text_ne [simp]: "fallback_text \<noteq> []"
  by (simp add: fallback_text_def)

lemma lead_text_hd: "\<exists>t. lead_text lead = CHR ''O'' # t"
  by (simp add: lead_text_def split: option.split)

lemmas describe_narrate_unfold = describe_def narrate_def append_clauses_render lead_sentence_text

lemmas description_eval [js_eval] =
  describe_def lead_sentence_def display_name_def object_clause_def label_estimate_def
  box_area_def distance_phrase_def direction_phrase_def direction_at_def combine_direction_def
  vertical_phrase_def horizontal_phrase_def center_x_def center_y_def fallback_text_def

subsection \<open>Properties of the description\<close>

text \<open>
  C1. The description the screen speaks is the rendering of an abstract narration:
  the lead (the rounded measured distance, or none) and one clause per object of the
  first three, each with its name, its distance bucket (when per-object distances
  apply) and its region. The accumulating \<open>forEach\<close> with its index-dependent
  connectives computes exactly this rendering, for every input.
\<close>

theorem describe_render: "describe rd objs = render (narrate rd objs)"
  by (simp add: describe_narrate_unfold)

text \<open>
  C6. Only the first three objects matter: objects after the third never change the
  spoken description.
\<close>

theorem top_three_only: "describe rd objs = describe rd (take 3 objs)"
  by (simp add: describe_def)

text \<open>
  C9. The fixed fallback sentence is spoken exactly when no physical object is left.
\<close>

theorem fallback_iff_empty: "describe rd objs = fallback_text \<longleftrightarrow> objs = []"
proof
  assume eq: "describe rd objs = fallback_text"
  show "objs = []"
  proof (rule ccontr)
    assume "objs \<noteq> []"
    moreover obtain t where "lead_text (map_option (\<lambda>d. js_round (d * 10)) rd) = CHR ''O'' # t"
      using lead_text_hd by blast
    ultimately have
      "describe rd objs = CHR ''O'' # t @ render_clauses 0 (map (narrate_clause rd) (take 3 objs)) @ ''.''"
      by (simp add: describe_narrate_unfold)
    with eq show False by (simp add: fallback_text_def)
  qed
next
  assume "objs = []"
  then show "describe rd objs = fallback_text" by (simp add: describe_def)
qed

theorem fallback_iff_empty_witness:
  "describe None [] = fallback_text \<and>
   describe (Some 2) [\<lparr>Name = Some ''Chair'', Confidence = None, Instances = None\<rparr>] \<noteq> fallback_text"
  using fallback_iff_empty [of None "[]"]
    fallback_iff_empty [of "Some 2" "[\<lparr>Name = Some ''Chair'', Confidence = None, Instances = None\<rparr>]"]
  by simp

text \<open>
  C10. With a non-zero measured distance, the text after the lead sentence is the text
  the objects give without a measurement, with every per-object distance removed and
  every name and direction kept.
\<close>

theorem measured_distance_priority:
  assumes "d \<noteq> 0" and "objs \<noteq> []"
  shows "describe (Some d) objs
           = lead_sentence (Some d)
             @ render_clauses 0 (map (\<lambda>l. (narrate_clause None l)\<lparr>cl_distance := None\<rparr>) (take 3 objs))
             @ ''.''"
proof -
  have "narrate_clause (Some d) = (\<lambda>l. (narrate_clause None l)\<lparr>cl_distance := None\<rparr>)"
    using assms(1) by (simp add: fun_eq_iff narrate_clause_def js_falsy_num_def)
  with assms(2) show ?thesis by (simp add: describe_def append_clauses_render)
qed

theorem measured_distance_priority_witness:
  "(4.2::real) \<noteq> 0 \<and> [\<lparr>Name = Some ''Chair'', Confidence = None, Instances = None\<rparr>] \<noteq> [] \<and>
   describe (Some 4.2) [\<lparr>Name = Some ''Chair'', Confidence = None, Instances = None\<rparr>]
     = lead_sentence (Some 4.2)
       @ render_clauses 0 (map (\<lambda>l. (narrate_clause None l)\<lparr>cl_distance := None\<rparr>)
                              (take 3 [\<lparr>Name = Some ''Chair'', Confidence = None, Instances = None\<rparr>]))
       @ ''.''"
proof -
  have h1: "(4.2::real) \<noteq> 0" by simp
  have h2: "[\<lparr>Name = Some ''Chair'', Confidence = None, Instances = None\<rparr>] \<noteq> []" by simp
  show ?thesis using h1 h2 measured_distance_priority [OF h1 h2] by blast
qed

text \<open>
  C11. A measured distance of exactly zero is falsy in \<open>!realDistance\<close>: the lead
  announces "approximately 0 feet", and the rest of the text is the text without a
  measurement, every per-object distance included.
\<close>

theorem zero_reading_keeps_distances:
  assumes "objs \<noteq> []"
  shows "describe (Some 0) objs
           = ''Objects are approximately 0 feet away. '' @ drop (length ''Objects detected. '') (describe None objs)"
proof -
  have "narrate_clause (Some 0) = narrate_clause None"
    by (simp add: fun_eq_iff narrate_clause_def js_falsy_num_def)
  moreover have "lead_sentence (Some 0) = ''Objects are approximately 0 feet away. ''"
    by (simp add: lead_sentence_def js_eval nat_digits.simps)
  ultimately show ?thesis
    using assms by (simp add: describe_def append_clauses_render lead_sentence_def)
qed

theorem zero_reading_keeps_distances_witness:
  "describe (Some 0) [\<lparr>Name = Some ''Chair'', Confidence = None,
       Instances = Some [\<lparr>BoundingBox = Some \<lparr>Width = Some 0.5, Height = Some 0.8, Left = Some 0.3, Top = Some 0.1\<rparr>\<rparr>]\<rparr>]
     = ''Objects are approximately 0 feet away. '' @
       drop (length ''Objects detected. '')
         (describe None [\<lparr>Name = Some ''Chair'', Confidence = None,
            Instances = Some [\<lparr>BoundingBox = Some \<lparr>Width = Some 0.5, Height = Some 0.8, Left = Some 0.3, Top = Some 0.1\<rparr>\<rparr>]\<rparr>])"
  by (rule zero_reading_keeps_distances) simp

text \<open>
  C12. The measured distance is announced rounded to the nearest tenth of a foot: the
  printed value is within a twentieth of a foot of the reading.
\<close>

theorem measured_lead_rounding:
  "\<exists>k. lead_sentence (Some d) = ''Objects are approximately '' @ show_tenths k @ '' feet away. ''
       \<and> \<bar>real_of_int k / 10 - d\<bar> \<le> 1 / 20"
proof -
  let ?k = "js_round (d * 10)"
  have b: "d * 10 - 1 / 2 < real_of_int ?k \<and> real_of_int ?k \<le> d * 10 + 1 / 2"
    by (rule js_round_bounds)
  have "\<bar>real_of_int ?k / 10 - d\<bar> = \<bar>real_of_int ?k - d * 10\<bar> / 10"
    by (simp add: field_simps)
  also have "\<dots> \<le> 1 / 20"
  proof -
    have "\<bar>real_of_int ?k - d * 10\<bar> \<le> 1 / 2"
      using b abs_le_iff [of "real_of_int ?k - d * 10" "1 / 2"] by linarith
    then show ?thesis by simp
  qed
  finally show ?thesis by (auto simp: lead_sentence_def)
qed

text \<open>
  C13. The lead sentence announces exactly the reading rounded to the nearest tenth,
  halves rounded up: the number it prints reads back as \<open>Math.round(d * 10)\<close> tenths.
\<close>

theorem lead_sentence_reads_back:
  "\<exists>s. lead_sentence (Some d) = ''Objects are approximately '' @ s @ '' feet away. ''
       \<and> read_tenths s = Some (js_round (d * 10))"
  by (simp add: lead_sentence_def read_show_tenths)

text \<open>The spoken text is never empty; it starts with the lead or the fallback.\<close>

lemma describe_nonempty: "describe rd objs \<noteq> []"
proof (cases "objs = []")
  case True
  then show ?thesis by (simp add: describe_def)
next
  case False
  obtain t where "lead_text (map_option (\<lambda>d. js_round (d * 10)) rd) = CHR ''O'' # t"
    using lead_text_hd by blast
  with False show ?thesis by (simp add: describe_narrate_unfold)
qed

lemma describe_hd: "hd (describe rd objs) \<in> {CHR ''O'', CHR ''N''}"
proof (cases "objs = []")
  case True
  then show ?thesis by (simp add: describe_def fallback_text_def)
next
  case False
  obtain t where "lead_text (map_option (\<lambda>d. js_round (d * 10)) rd) = CHR ''O'' # t"
    using lead_text_hd by blast
  with False show ?thesis by (simp add: describe_narrate_unfold)
qed

end
