(* ===== verification/Js_Async.thy ===== *)
theory Js_Async
  imports Prelude
begin

text \<open>
  The control flow of an \<open>async\<close> JavaScript function: a computation that reads and
  writes a state and either returns a value or throws an error. \<open>js_bind\<close> is the
  \<open>await\<close> of one step followed by the rest (a thrown error skips the rest),
  \<open>js_catch\<close> is \<open>try \<dots> catch\<close>, \<open>js_finally\<close> is \<open>try \<dots> finally\<close>. Thrown values are
  \<open>js_error\<close> records with the fields the screen inspects: \<open>code\<close>, \<open>message\<close> and
  what \<open>toString()\<close> prints. The lemmas evaluate each combinator on a state and say
  when a computation never throws.
\<close>

record js_error =
  err_code :: "string option"
  err_message :: "string option"
  err_text :: string

type_synonym ('s, 'a) js_action = "'s \<Rightarrow> (js_error + 'a) \<times> 's"

definition js_return :: "'a \<Rightarrow> ('s, 'a) js_action" where
  "js_return a = (\<lambda>s. (Inr a, s))"

definition js_throw :: "js_error \<Rightarrow> ('s, 'a) js_action" where
  "js_throw e = (\<lambda>s. (Inl e, s))"

definition js_bind :: "('s, 'a) js_action \<Rightarrow> ('a \<Rightarrow> ('s, 'b) js_action) \<Rightarrow> ('s, 'b) js_action" where
  "js_bind m f = (\<lambda>s. case m s of (Inl e, s') \<Rightarrow> (Inl e, s') | (Inr a, s') \<Rightarrow> f a s')"

definition js_then :: "('s, 'a) js_action \<Rightarrow> ('s, 'b) js_action \<Rightarrow> ('s, 'b) js_action" where
  "js_then m n = js_bind m (\<lambda>_. n)"

definition js_catch :: "('s, 'a) js_action \<Rightarrow> (js_error \<Rightarrow> ('s, 'a) js_action) \<Rightarrow> ('s, 'a) js_action" where
  "js_catch m h = (\<lambda>s. case m s of (Inl e, s') \<Rightarrow> h e s' | (Inr a, s') \<Rightarrow> (Inr a, s'))"

definition js_finally :: "('s, 'a) js_action \<Rightarrow> ('s, unit) js_action \<Rightarrow> ('s, 'a) js_action" where
  "js_finally m f =
     (\<lambda>s. case m s of (r, s') \<Rightarrow> (case f s' of (Inl e, s'') \<Rightarrow> (Inl e, s'') | (Inr _, s'') \<Rightarrow> (r, s'')))"

text \<open>\<open>a || b\<close> on an optional string, and a template literal of one.\<close>

definition js_str_or :: "string option \<Rightarrow> string \<Rightarrow> string" where
  "js_str_or x d = (case x of Some v \<Rightarrow> if v = [] then d else v | None \<Rightarrow> d)"

definition js_template_str :: "string option \<Rightarrow> string" where
  "js_template_str x = (case x of Some v \<Rightarrow> v | None \<Rightarrow> ''undefined'')"

text \<open>A computation that returns on every state.\<close>

definition js_total :: "('s, 'a) js_action \<Rightarrow> bool" where
  "js_total m \<longleftrightarrow> (\<forall>s. \<exists>a s'. m s = (Inr a, s'))"

subsection \<open>Evaluation\<close>

named_theorems js_action_simps "evaluation of the async combinators on a state"

lemma js_return_apply [js_action_simps]: "js_return a s = (Inr a, s)"
  by (simp add: js_return_def)

lemma js_throw_apply [js_action_simps]: "js_throw e s = (Inl e, s)"
  by (simp add: js_throw_def)

lemma js_bind_apply [js_action_simps]:
  "js_bind m f s = (case m s of (Inl e, s') \<Rightarrow> (Inl e, s') | (Inr a, s') \<Rightarrow> f a s')"
  by (simp add: js_bind_def)

lemma js_then_apply [js_action_simps]:
  "js_then m n s = (case m s of (Inl e, s') \<Rightarrow> (Inl e, s') | (Inr a, s') \<Rightarrow> n s')"
  by (simp add: js_then_def js_bind_def)

lemma js_catch_apply [js_action_simps]:
  "js_catch m h s = (case m s of (Inl e, s') \<Rightarrow> h e s' | (Inr a, s') \<Rightarrow> (Inr a, s'))"
  by (simp add: js_catch_def)

lemma js_finally_apply [js_action_simps]:
  "js_finally m f s =
     (case m s of (r, s') \<Rightarrow> (case f s' of (Inl e, s'') \<Rightarrow> (Inl e, s'') | (Inr _, s'') \<Rightarrow> (r, s'')))"
  by (simp add: js_finally_def)

lemma js_totalD: "js_total m \<Longrightarrow> \<exists>a s'. m s = (Inr a, s')"
  by (simp add: js_total_def)

lemma js_total_catch:
  assumes "\<And>e. js_total (h e)"
  shows "js_total (js_catch m h)"
  unfolding js_total_def
proof
  fix s
  show "\<exists>a s'. js_catch m h s = (Inr a, s')"
  proof (cases "m s")
    case (Pair r s')
    then show ?thesis
      using js_totalD [OF assms, of _ s'] by (cases r) (simp_all add: js_catch_apply)
  qed
qed

lemma js_total_then:
  assumes "js_total m" and "js_total n"
  shows "js_total (js_then m n)"
  unfolding js_total_def
proof
  fix s
  obtain a s' where m: "m s = (Inr a, s')" using js_totalD [OF assms(1)] by blast
  obtain b s'' where n: "n s' = (Inr b, s'')" using js_totalD [OF assms(2)] by blast
  show "\<exists>a s'. js_then m n s = (Inr a, s')" by (simp add: js_then_apply m n)
qed

lemma js_total_finally:
  assumes "js_total m" and "js_total f"
  shows "js_total (js_finally m f)"
  unfolding js_total_def
proof
  fix s
  obtain a s' where m: "m s = (Inr a, s')" using js_totalD [OF assms(1)] by blast
  obtain b s'' where f: "f s' = (Inr b, s'')" using js_totalD [OF assms(2)] by blast
  show "\<exists>a s'. js_finally m f s = (Inr a, s')" by (simp add: js_finally_apply m f)
qed

end
