(* ===== verification/Capture_Cycle.thy ===== *)
theory Capture_Cycle
  imports Description Js_Async
begin

text \<open>
  One capture cycle of the screen (\<open>src/app/(tabs)/index.tsx\<close>): \<open>speakText\<close>
  (lines 64--84), \<open>getARKitDistance\<close> (lines 86--98), \<open>base64ToUint8Array\<close> (lines
  55--62) and \<open>takePicture\<close> (lines 100--285). The React state the cycle writes is the
  record \<open>screen\<close>; what the cycle does to the outside world (speech, alerts, the
  camera, S3, Rekognition, the depth sensor) is an effect appended to a trace, in the
  order the calls are made. Each collaborator's answer for this cycle is a field of
  \<open>cycle_env\<close>: a rejected promise is an \<open>Inl\<close> error, which the model throws as the
  \<open>await\<close> would. The guard and the LiDAR test read the state the handler closed over
  (\<open>st\<close>, the last render), as the closure does.
\<close>

subsection \<open>State, effects and collaborators\<close>

record screen =
  analyzing :: bool
  result :: string
  hasLiDAR :: bool
  arSessionActive :: bool

datatype effect =
    SpeechStop
  | SpeechSpeak string
  | AlertShown string string
  | CameraTakePicture
  | S3PutObject string string "8 word list"
  | RekognitionDetectLabels string string nat nat
  | DepthAtCenter

datatype tts_fault = StopRejects js_error | SpeakThrows js_error

record photo =
  base64 :: "string option"

record cycle_env =
  camera_module :: bool
  depth_module :: bool
  s3_bucket :: string
  tts_fault :: "string \<Rightarrow> tts_fault option"
  capture_result :: "js_error + photo option"
  now :: nat
  atob :: "string \<Rightarrow> js_error + nat list"
  upload_result :: "js_error option"
  detect_result :: "js_error + label list option"
  depth_result :: "js_error + js_number"

type_synonym cycle_state = "screen \<times> effect list"

type_synonym 'a cycle_action = "(cycle_state, 'a) js_action"

definition emit :: "effect \<Rightarrow> unit cycle_action" where
  "emit e = (\<lambda>(st, tr). (Inr (), st, tr @ [e]))"

definition set_state :: "(screen \<Rightarrow> screen) \<Rightarrow> unit cycle_action" where
  "set_state f = (\<lambda>(st, tr). (Inr (), f st, tr))"

definition await_result :: "js_error + 'a \<Rightarrow> 'a cycle_action" where
  "await_result r = (case r of Inl e \<Rightarrow> js_throw e | Inr a \<Rightarrow> js_return a)"

subsection \<open>speakText\<close>

definition speakText :: "cycle_env \<Rightarrow> string \<Rightarrow> unit cycle_action" where
  "speakText env text =
     js_catch
       (js_then (emit SpeechStop)
          (case tts_fault env text of
             Some (StopRejects e) \<Rightarrow> js_throw e
           | _ \<Rightarrow> js_then (emit (SpeechSpeak text))
                    (case tts_fault env text of Some (SpeakThrows e) \<Rightarrow> js_throw e | _ \<Rightarrow> js_return ())))
       (\<lambda>error. emit (AlertShown ''TTS Error'' (''Could not speak: '' @ js_template_str (err_message error))))"

subsection \<open>getARKitDistance\<close>

definition getARKitDistance :: "cycle_env \<Rightarrow> screen \<Rightarrow> js_number option cycle_action" where
  "getARKitDistance env st =
     (if \<not> hasLiDAR st \<or> \<not> depth_module env then js_return None
      else js_catch
             (js_bind (js_then (emit DepthAtCenter) (await_result (depth_result env)))
                (\<lambda>depthData. js_return (Some depthData)))
             (\<lambda>error. js_return None))"

subsection \<open>base64ToUint8Array\<close>

text \<open>
  \<open>atob\<close> is the platform's decoder (it throws on malformed input); its result is a
  string of code units. The loop stores each code unit into a \<open>Uint8Array\<close>, which keeps
  it modulo 256.
\<close>

function fill_bytes :: "nat list \<Rightarrow> nat \<Rightarrow> 8 word list \<Rightarrow> 8 word list" where
  "fill_bytes binaryString i bytes =
     (if i < length binaryString
      then fill_bytes binaryString (Suc i) (bytes[i := word_of_nat (binaryString ! i)])
      else bytes)"
  by pat_completeness auto
termination
  by (relation "measure (\<lambda>(s, i, bytes). length s - i)") auto

declare fill_bytes.simps [simp del]

definition base64ToUint8Array :: "cycle_env \<Rightarrow> string \<Rightarrow> 8 word list cycle_action" where
  "base64ToUint8Array env b64 =
     js_bind (await_result (atob env b64))
       (\<lambda>binaryString. js_return (fill_bytes binaryString 0 (replicate (length binaryString) 0)))"

subsection \<open>takePicture\<close>

definition no_image_data :: js_error where
  "no_image_data = \<lparr>err_code = None, err_message = Some ''No image data'', err_text = ''Error: No image data''\<rparr>"

definition error_details :: "js_error \<Rightarrow> string" where
  "error_details error = js_str_or (err_message error) (js_str_or (Some (err_text error)) ''Unknown error'')"

definition analysis_key :: "nat \<Rightarrow> string" where
  "analysis_key timestamp = ''analysis/'' @ nat_digits timestamp @ ''.jpg''"

text \<open>The body of the \<open>try\<close> block, from the capture to the spoken description.\<close>

definition analyze :: "cycle_env \<Rightarrow> screen \<Rightarrow> unit cycle_action" where
  "analyze env st =
     js_bind (js_then (emit CameraTakePicture) (await_result (capture_result env))) (\<lambda>photo.
     case (case photo of None \<Rightarrow> None | Some p \<Rightarrow> base64 p) of
       None \<Rightarrow> js_throw no_image_data
     | Some b64 \<Rightarrow> if b64 = [] then js_throw no_image_data else
     js_then (set_state (\<lambda>s. s\<lparr>result := ''Analyzing image...''\<rparr>)) (
     js_then (speakText env ''Analyzing'') (
     let key = analysis_key (now env) in
     js_bind (base64ToUint8Array env b64) (\<lambda>imageBytes.
     js_then (js_then (emit (S3PutObject (s3_bucket env) key imageBytes))
                      (await_result (case upload_result env of Some e \<Rightarrow> Inl e | None \<Rightarrow> Inr ()))) (
     js_bind (js_then (emit (RekognitionDetectLabels (s3_bucket env) key 10 70))
                      (await_result (detect_result env))) (\<lambda>labels.
     let allLabels = (case labels of None \<Rightarrow> [] | Some ls \<Rightarrow> ls);
         physicalObjects = physical_objects allLabels in
     js_bind (if hasLiDAR st then getARKitDistance env st else js_return None) (\<lambda>realDistance.
     let description = describe realDistance physicalObjects in
     js_then (set_state (\<lambda>s. s\<lparr>result := description\<rparr>)) (speakText env description))))))))"

text \<open>The \<open>catch\<close> block: a cancelled capture resets silently, any other error is shown and
  an apology spoken.\<close>

definition on_error :: "cycle_env \<Rightarrow> js_error \<Rightarrow> unit cycle_action" where
  "on_error env error =
     (if err_code error = Some ''CANCELLED''
      then js_then (set_state (\<lambda>s. s\<lparr>result := []\<rparr>)) (set_state (\<lambda>s. s\<lparr>analyzing := False\<rparr>))
      else js_then (set_state (\<lambda>s. s\<lparr>result := ''Analysis failed: '' @ error_details error\<rparr>))
             (speakText env ''Analysis failed. Please try again.''))"

definition takePicture_action :: "cycle_env \<Rightarrow> screen \<Rightarrow> unit cycle_action" where
  "takePicture_action env st =
     (if analyzing st \<or> \<not> camera_module env then js_return ()
      else js_then (set_state (\<lambda>s. s\<lparr>analyzing := True\<rparr>)) (
           js_then (speakText env ''Opening camera'') (
           js_finally (js_catch (analyze env st) (on_error env))
             (set_state (\<lambda>s. s\<lparr>analyzing := False\<rparr>)))))"

text \<open>A tap: the handler runs on the state of the last render, with an empty trace.\<close>

definition takePicture :: "cycle_env \<Rightarrow> screen \<Rightarrow> screen \<times> effect list" where
  "takePicture env st = snd (takePicture_action env st (st, []))"

subsection \<open>The outcome of a cycle, in direct style\<close>

text \<open>
  The same cycle written as a decision tree over the collaborators' answers: what each
  branch leaves in the state and appends to the trace. \<open>takePicture_outcome\<close> below
  proves that the async code computes exactly this; the properties of the cycle are
  read off it.
\<close>

definition tts_alert :: "js_error \<Rightarrow> effect" where
  "tts_alert e = AlertShown ''TTS Error'' (''Could not speak: '' @ js_template_str (err_message e))"

definition speak_trace :: "cycle_env \<Rightarrow> string \<Rightarrow> effect list" where
  "speak_trace env text =
     SpeechStop # (case tts_fault env text of
                     Some (StopRejects e) \<Rightarrow> [tts_alert e]
                   | Some (SpeakThrows e) \<Rightarrow> [SpeechSpeak text, tts_alert e]
                   | None \<Rightarrow> [SpeechSpeak text])"

definition depth_reading :: "cycle_env \<Rightarrow> screen \<Rightarrow> js_number option" where
  "depth_reading env st =
     (if hasLiDAR st \<and> depth_module env then (case depth_result env of Inl _ \<Rightarrow> None | Inr d \<Rightarrow> Some d)
      else None)"

definition depth_trace :: "cycle_env \<Rightarrow> screen \<Rightarrow> effect list" where
  "depth_trace env st = (if hasLiDAR st \<and> depth_module env then [DepthAtCenter] else [])"

definition photo_data :: "photo option \<Rightarrow> string option" where
  "photo_data photo =
     (case photo of None \<Rightarrow> None
      | Some p \<Rightarrow> (case base64 p of None \<Rightarrow> None | Some b \<Rightarrow> if b = [] then None else Some b))"

definition apology :: string where
  "apology = ''Analysis failed. Please try again.''"

definition fail_end :: "cycle_env \<Rightarrow> js_error \<Rightarrow> screen \<Rightarrow> effect list \<Rightarrow> screen \<times> effect list" where
  "fail_end env e st tr =
     (if err_code e = Some ''CANCELLED'' then (st\<lparr>result := [], analyzing := False\<rparr>, tr)
      else (st\<lparr>result := ''Analysis failed: '' @ error_details e, analyzing := False\<rparr>,
            tr @ speak_trace env apology))"

definition cycle_outcome :: "cycle_env \<Rightarrow> screen \<Rightarrow> screen \<times> effect list" where
  "cycle_outcome env st =
     (if analyzing st \<or> \<not> camera_module env then (st, [])
      else
        let st1 = st\<lparr>analyzing := True\<rparr>;
            tr1 = speak_trace env ''Opening camera'' @ [CameraTakePicture]
        in case capture_result env of
             Inl e \<Rightarrow> fail_end env e st1 tr1
           | Inr photo \<Rightarrow>
             (case photo_data photo of
                None \<Rightarrow> fail_end env no_image_data st1 tr1
              | Some b64 \<Rightarrow>
                let st2 = st1\<lparr>result := ''Analyzing image...''\<rparr>;
                    tr2 = tr1 @ speak_trace env ''Analyzing''
                in case atob env b64 of
                     Inl e \<Rightarrow> fail_end env e st2 tr2
                   | Inr bin \<Rightarrow>
                     let key = analysis_key (now env);
                         tr3 = tr2 @ [S3PutObject (s3_bucket env) key (map word_of_nat bin)]
                     in case upload_result env of
                          Some e \<Rightarrow> fail_end env e st2 tr3
                        | None \<Rightarrow>
                          let tr4 = tr3 @ [RekognitionDetectLabels (s3_bucket env) key 10 70]
                          in case detect_result env of
                               Inl e \<Rightarrow> fail_end env e st2 tr4
                             | Inr labels \<Rightarrow>
                               let d = describe (depth_reading env st)
                                         (physical_objects (case labels of None \<Rightarrow> [] | Some ls \<Rightarrow> ls))
                               in (st2\<lparr>result := d, analyzing := False\<rparr>,
                                   tr4 @ depth_trace env st @ speak_trace env d)))"

text \<open>A trace in which every label detection names an object uploaded before it.\<close>

fun uploads_precede :: "(string \<times> string) list \<Rightarrow> effect list \<Rightarrow> bool" where
  "uploads_precede up [] = True"
| "uploads_precede up (S3PutObject b k _ # tr) = uploads_precede ((b, k) # up) tr"
| "uploads_precede up (RekognitionDetectLabels b k _ _ # tr) = ((b, k) \<in> set up \<and> uploads_precede up tr)"
| "uploads_precede up (_ # tr) = uploads_precede up tr"

definition local_effect :: "effect \<Rightarrow> bool" where
  "local_effect e = (case e of S3PutObject _ _ _ \<Rightarrow> False | RekognitionDetectLabels _ _ _ _ \<Rightarrow> False | _ \<Rightarrow> True)"

text \<open>A trace in which every utterance is immediately preceded by stopping the previous one.\<close>

fun stop_before_speak :: "effect list \<Rightarrow> bool" where
  "stop_before_speak [] = True"
| "stop_before_speak (SpeechStop # SpeechSpeak t # tr) = stop_before_speak tr"
| "stop_before_speak (SpeechSpeak t # tr) = False"
| "stop_before_speak (e # tr) = stop_before_speak tr"

subsection \<open>Example collaborators\<close>

definition example_label :: label where
  "example_label =
     \<lparr>Name = Some ''Chair'', Confidence = Some 98,
      Instances = Some [\<lparr>BoundingBox = Some \<lparr>Width = Some 0.3, Height = Some 0.3,
                                             Left = Some 0.1, Top = Some 0.4\<rparr>\<rparr>]\<rparr>"

definition example_env :: cycle_env where
  "example_env =
     \<lparr>camera_module = True, depth_module = True, s3_bucket = ''your-bucket-name'',
      tts_fault = (\<lambda>_. None), capture_result = Inr (Some \<lparr>base64 = Some ''QUJD''\<rparr>),
      now = 1700000000000, atob = (\<lambda>_. Inr [65, 66, 67]), upload_result = None,
      detect_result = Inr (Some [example_label]), depth_result = Inr 4.2\<rparr>"

definition example_screen :: screen where
  "example_screen = \<lparr>analyzing = False, result = [], hasLiDAR = True, arSessionActive = True\<rparr>"

definition cancelled_error :: js_error where
  "cancelled_error = \<lparr>err_code = Some ''CANCELLED'', err_message = Some ''User cancelled'', err_text = ''Error: User cancelled''\<rparr>"

definition network_error :: js_error where
  "network_error = \<lparr>err_code = None, err_message = Some ''Network failure'', err_text = ''Error: Network failure''\<rparr>"

subsection \<open>Evaluation of the pieces\<close>

lemma emit_apply: "emit e (st, tr) = (Inr (), st, tr @ [e])"
  by (simp add: emit_def)

lemma set_state_apply: "set_state f (st, tr) = (Inr (), f st, tr)"
  by (simp add: set_state_def)

lemma await_result_apply: "await_result r s = (case r of Inl e \<Rightarrow> (Inl e, s) | Inr a \<Rightarrow> (Inr a, s))"
  by (simp add: await_result_def js_action_simps split: sum.split)

lemma speakText_apply: "speakText env text (st, tr) = (Inr (), st, tr @ speak_trace env text)"
  by (simp add: speakText_def speak_trace_def tts_alert_def js_action_simps emit_apply
      split: option.split tts_fault.split)

lemma getARKitDistance_apply:
  "getARKitDistance env st (st', tr) = (Inr (depth_reading env st), st', tr @ depth_trace env st)"
  by (simp add: getARKitDistance_def depth_reading_def depth_trace_def js_action_simps emit_apply
      await_result_apply split: sum.split)

lemma fill_bytes_map:
  "length bytes = length s \<Longrightarrow> i \<le> length s \<Longrightarrow> fill_bytes s i bytes = take i bytes @ map word_of_nat (drop i s)"
proof (induction s i bytes rule: fill_bytes.induct)
  case (1 s i bytes)
  show ?case
  proof (cases "i < length s")
    case True
    with "1.prems" have "fill_bytes s i bytes =
        take (Suc i) (bytes[i := word_of_nat (s ! i)]) @ map word_of_nat (drop (Suc i) s)"
      by (simp add: fill_bytes.simps [of s i bytes] "1.IH")
    also have "\<dots> = take i bytes @ map word_of_nat (drop i s)"
      using True "1.prems" by (simp add: take_Suc_conv_app_nth Cons_nth_drop_Suc [symmetric])
    finally show ?thesis .
  next
    case False
    then have "fill_bytes s i bytes = bytes" by (simp add: fill_bytes.simps [of s i bytes])
    with False "1.prems" show ?thesis by simp
  qed
qed

lemma fill_bytes_from_zero: "fill_bytes s 0 (replicate (length s) 0) = map word_of_nat s"
  by (simp add: fill_bytes_map)

lemma base64ToUint8Array_apply:
  "base64ToUint8Array env b s = (case atob env b of Inl e \<Rightarrow> (Inl e, s) | Inr bin \<Rightarrow> (Inr (map word_of_nat bin), s))"
  by (simp add: base64ToUint8Array_def js_action_simps await_result_apply fill_bytes_from_zero split: sum.split)

lemmas cycle_simps = js_action_simps emit_apply set_state_apply await_result_apply speakText_apply
  getARKitDistance_apply base64ToUint8Array_apply

lemma takePicture_outcome: "takePicture env st = cycle_outcome env st"
  by (simp add: takePicture_def takePicture_action_def cycle_outcome_def analyze_def on_error_def
      fail_end_def photo_data_def apology_def cycle_simps Let_def depth_reading_def depth_trace_def
      split: sum.split option.split prod.split)

lemmas outcome_unfold = cycle_outcome_def fail_end_def Let_def

lemma speakText_total: "js_total (speakText env text)"
  by (auto simp: js_total_def speakText_apply)

lemma set_state_total: "js_total (set_state f)"
  by (auto simp: js_total_def set_state_apply)

lemma on_error_total: "js_total (on_error env e)"
  by (simp add: on_error_def js_total_then speakText_total set_state_total)

lemma uploads_precede_local:
  "list_all local_effect xs \<Longrightarrow> uploads_precede up (xs @ ys) = uploads_precede up ys"
proof (induction xs)
  case Nil
  then show ?case by simp
next
  case (Cons x xs)
  then show ?case by (cases x) (simp_all add: local_effect_def)
qed

lemma speak_trace_local [simp]: "list_all local_effect (speak_trace env t)"
  by (simp add: speak_trace_def tts_alert_def local_effect_def split: option.split tts_fault.split)

lemma depth_trace_local [simp]: "list_all local_effect (depth_trace env st)"
  by (simp add: depth_trace_def local_effect_def)

lemma uploads_precede_local_only: "list_all local_effect xs \<Longrightarrow> uploads_precede up xs"
  using uploads_precede_local [of xs up "[]"] by simp

lemma stop_before_speak_speak_trace [simp]:
  "stop_before_speak (speak_trace env t @ ys) = stop_before_speak ys"
  by (simp add: speak_trace_def tts_alert_def split: option.split tts_fault.split)

lemma stop_before_speak_depth_trace [simp]:
  "stop_before_speak (depth_trace env st @ ys) = stop_before_speak ys"
  by (simp add: depth_trace_def)

lemmas example_defs = example_env_def example_screen_def example_label_def cancelled_error_def
  network_error_def

subsection \<open>Properties of the capture cycle\<close>

text \<open>
  C15. While a cycle is in flight (the rendered \<open>analyzing\<close> flag is set) a tap does nothing: no state change and no call to any collaborator.
\<close>

theorem takePicture_busy:
  assumes "analyzing st"
  shows "takePicture env st = (st, [])"
  using assms by (simp add: takePicture_outcome cycle_outcome_def)

theorem takePicture_busy_witness:
  "analyzing (example_screen\<lparr>analyzing := True\<rparr>) \<and>
   takePicture example_env (example_screen\<lparr>analyzing := True\<rparr>) = (example_screen\<lparr>analyzing := True\<rparr>, [])"
  using takePicture_busy [of "example_screen\<lparr>analyzing := True\<rparr>" example_env] by simp

text \<open>
  C16. Every cycle started from an idle screen ends with the busy flag cleared, whatever the collaborators answer: success, cancellation or any failure.
\<close>

theorem takePicture_clears_analyzing:
  assumes "\<not> analyzing st"
  shows "\<not> analyzing (fst (takePicture env st))"
  using assms by (simp add: takePicture_outcome outcome_unfold split: sum.split option.split)

theorem takePicture_clears_analyzing_witness:
  "\<not> analyzing example_screen \<and> \<not> analyzing (fst (takePicture example_env example_screen))"
proof -
  have h: "\<not> analyzing example_screen" by (simp add: example_screen_def)
  show ?thesis using h takePicture_clears_analyzing [OF h] by blast
qed

text \<open>
  C17. A cancelled capture ends the cycle silently: the result text is cleared, the flag reset, and after the camera call nothing is spoken, uploaded, analysed or measured.
\<close>

theorem takePicture_cancelled:
  assumes "\<not> analyzing st" and "camera_module env"
    and "capture_result env = Inl e" and "err_code e = Some ''CANCELLED''"
  shows "takePicture env st = (st\<lparr>result := []\<rparr>, speak_trace env ''Opening camera'' @ [CameraTakePicture])"
  using assms by (simp add: takePicture_outcome outcome_unfold)

theorem takePicture_cancelled_witness:
  "takePicture (example_env\<lparr>capture_result := Inl cancelled_error\<rparr>) example_screen
     = (example_screen, [SpeechStop, SpeechSpeak ''Opening camera'', CameraTakePicture])"
proof -
  have "takePicture (example_env\<lparr>capture_result := Inl cancelled_error\<rparr>) example_screen
          = (example_screen\<lparr>result := []\<rparr>,
             speak_trace (example_env\<lparr>capture_result := Inl cancelled_error\<rparr>) ''Opening camera'' @ [CameraTakePicture])"
    by (rule takePicture_cancelled [where e = cancelled_error]) (simp_all add: example_defs)
  then show ?thesis by (simp add: speak_trace_def example_defs)
qed

text \<open>
  C18. When capture, decoding, upload and analysis succeed, the cycle shows and speaks the description of the physical objects (with the LiDAR reading when the device has one), after exactly this sequence of calls: the opening announcement, the camera, the analysing announcement, the upload and the label detection of the same key, the depth read, the spoken description.
\<close>

theorem takePicture_success:
  assumes "\<not> analyzing st" and "camera_module env"
    and "capture_result env = Inr (Some p)" and "base64 p = Some b" and "b \<noteq> []"
    and "atob env b = Inr bin" and "upload_result env = None" and "detect_result env = Inr (Some labels)"
  shows "takePicture env st =
           (st\<lparr>result := describe (depth_reading env st) (physical_objects labels)\<rparr>,
            speak_trace env ''Opening camera'' @ [CameraTakePicture] @ speak_trace env ''Analyzing''
            @ [S3PutObject (s3_bucket env) (analysis_key (now env)) (map word_of_nat bin),
               RekognitionDetectLabels (s3_bucket env) (analysis_key (now env)) 10 70]
            @ depth_trace env st @ speak_trace env (describe (depth_reading env st) (physical_objects labels)))"
  using assms by (simp add: takePicture_outcome outcome_unfold photo_data_def)

theorem takePicture_success_witness:
  "result (fst (takePicture example_env example_screen))
     = ''Objects are approximately 4.2 feet away. I see a chair on your left.''"
proof -
  have "takePicture example_env example_screen =
          (example_screen\<lparr>result := describe (depth_reading example_env example_screen) (physical_objects [example_label])\<rparr>,
           speak_trace example_env ''Opening camera'' @ [CameraTakePicture] @ speak_trace example_env ''Analyzing''
           @ [S3PutObject (s3_bucket example_env) (analysis_key (now example_env)) (map word_of_nat [65, 66, 67]),
              RekognitionDetectLabels (s3_bucket example_env) (analysis_key (now example_env)) 10 70]
           @ depth_trace example_env example_screen
           @ speak_trace example_env (describe (depth_reading example_env example_screen) (physical_objects [example_label])))"
    by (rule takePicture_success [where p = "\<lparr>base64 = Some ''QUJD''\<rparr>" and b = "''QUJD''"])
       (simp_all add: example_defs)
  then show ?thesis
    by (simp add: depth_reading_def example_defs js_eval nat_digits.simps)
qed

text \<open>
  C19. When the upload fails, no analysis is requested; the screen shows \<open>Analysis failed: \<close> followed by the error's message and speaks the fixed apology.
\<close>

theorem takePicture_upload_failure:
  assumes "\<not> analyzing st" and "camera_module env"
    and "capture_result env = Inr (Some p)" and "base64 p = Some b" and "b \<noteq> []"
    and "atob env b = Inr bin" and "upload_result env = Some e" and "err_code e \<noteq> Some ''CANCELLED''"
  shows "takePicture env st =
           (st\<lparr>result := ''Analysis failed: '' @ error_details e\<rparr>,
            speak_trace env ''Opening camera'' @ [CameraTakePicture] @ speak_trace env ''Analyzing''
            @ [S3PutObject (s3_bucket env) (analysis_key (now env)) (map word_of_nat bin)]
            @ speak_trace env ''Analysis failed. Please try again.'')"
  using assms by (simp add: takePicture_outcome outcome_unfold photo_data_def apology_def)

theorem takePicture_upload_failure_witness:
  "result (fst (takePicture (example_env\<lparr>upload_result := Some network_error\<rparr>) example_screen))
     = ''Analysis failed: Network failure''"
proof -
  let ?env = "example_env\<lparr>upload_result := Some network_error\<rparr>"
  have "takePicture ?env example_screen =
           (example_screen\<lparr>result := ''Analysis failed: '' @ error_details network_error\<rparr>,
            speak_trace ?env ''Opening camera'' @ [CameraTakePicture] @ speak_trace ?env ''Analyzing''
            @ [S3PutObject (s3_bucket ?env) (analysis_key (now ?env)) (map word_of_nat [65, 66, 67])]
            @ speak_trace ?env ''Analysis failed. Please try again.'')"
    by (rule takePicture_upload_failure [where p = "\<lparr>base64 = Some ''QUJD''\<rparr>" and b = "''QUJD''"])
       (simp_all add: example_defs)
  then show ?thesis
    by (simp add: error_details_def js_str_or_def network_error_def)
qed

text \<open>
  C20. In every cycle each label detection refers to a bucket and key that were uploaded earlier in the same cycle.
\<close>

theorem takePicture_uploads_precede: "uploads_precede [] (snd (takePicture env st))"
  by (simp add: takePicture_outcome outcome_unfold uploads_precede_local uploads_precede_local_only
      split: sum.split option.split)

text \<open>
  C21. A failed depth read is never surfaced: the screen ends exactly as on a device without the depth module.
\<close>

theorem takePicture_sensor_failure_silent:
  assumes "depth_result env = Inl e"
  shows "fst (takePicture env st) = fst (takePicture (env\<lparr>depth_module := False\<rparr>) st)"
  using assms by (simp add: takePicture_outcome outcome_unfold depth_reading_def split: sum.split option.split)

theorem takePicture_sensor_failure_silent_witness:
  "depth_result (example_env\<lparr>depth_result := Inl network_error\<rparr>) = Inl network_error \<and>
   fst (takePicture (example_env\<lparr>depth_result := Inl network_error\<rparr>) example_screen)
     = fst (takePicture (example_env\<lparr>depth_result := Inl network_error, depth_module := False\<rparr>) example_screen)"
  using takePicture_sensor_failure_silent [of "example_env\<lparr>depth_result := Inl network_error\<rparr>" network_error example_screen]
  by simp

text \<open>
  C22. The tap handler never rejects: every error of the cycle, speech errors included, is caught.
\<close>

theorem takePicture_never_rejects: "js_total (takePicture_action env st)"
proof (cases "analyzing st \<or> \<not> camera_module env")
  case True
  then show ?thesis by (simp add: takePicture_action_def js_total_def js_return_apply)
next
  case False
  have "js_total (js_then (set_state (\<lambda>s. s\<lparr>analyzing := True\<rparr>)) (
          js_then (speakText env ''Opening camera'') (
          js_finally (js_catch (analyze env st) (on_error env)) (set_state (\<lambda>s. s\<lparr>analyzing := False\<rparr>)))))"
    by (intro js_total_then js_total_finally js_total_catch set_state_total speakText_total on_error_total)
  with False show ?thesis by (simp add: takePicture_action_def)
qed

text \<open>
  Frame: a cycle never writes the LiDAR availability flag or the session flag.
\<close>

lemma takePicture_frame:
  "hasLiDAR (fst (takePicture env st)) = hasLiDAR st \<and>
   arSessionActive (fst (takePicture env st)) = arSessionActive st"
  by (simp add: takePicture_outcome outcome_unfold split: sum.split option.split)

text \<open>
  C24. Converting the decoded image to bytes keeps every code unit of a binary string (all below 256): reading the bytes back gives the string.
\<close>

theorem uint8_roundtrip:
  assumes "\<forall>c \<in> set s. c < 256"
  shows "map unat (fill_bytes s 0 (replicate (length s) 0)) = s"
  using assms by (simp add: fill_bytes_from_zero map_idI unat_of_nat)

theorem uint8_roundtrip_witness:
  "(65::nat) < 256 \<and> (66::nat) < 256 \<and> (67::nat) < 256 \<and>
   map unat (fill_bytes [65, 66, 67] 0 (replicate (length [65, 66, 67::nat]) 0)) = [65, 66, 67]"
  using uint8_roundtrip [of "[65, 66, 67]"] by simp

text \<open>
  C25. Each byte is the code unit modulo 256, the Uint8Array conversion.
\<close>

theorem uint8_wraps:
  assumes "i < length s"
  shows "unat (fill_bytes s 0 (replicate (length s) 0) ! i) = s ! i mod 256"
  using assms by (simp add: fill_bytes_from_zero unat_of_nat)

theorem uint8_wraps_witness:
  "0 < length [300::nat] \<and> unat (fill_bytes [300] 0 (replicate (length [300::nat]) 0) ! 0) = 44"
  using uint8_wraps [of 0 "[300]"] by simp

text \<open>
  C27. Every utterance of a cycle is preceded by stopping the previous one: in the trace,
  each call to \<open>Speech.speak\<close> comes right after a call to \<open>Speech.stop\<close>.
\<close>

theorem takePicture_stop_before_speak: "stop_before_speak (snd (takePicture env st))"
  using stop_before_speak_speak_trace [of _ _ "[]"] stop_before_speak_depth_trace [of _ _ "[]"]
  by (simp add: takePicture_outcome outcome_unfold split: sum.split option.split)

end
