(* ===== verification/Lidar_Lifecycle.thy ===== *)
theory Lidar_Lifecycle
  imports Capture_Cycle
begin

text \<open>
  The life of the screen around the depth session (\<open>src/app/(tabs)/index.tsx\<close>, lines
  24--53): the initial state of the four \<open>useState\<close> hooks, the mount effect that runs
  \<open>checkLiDAR\<close> (ask the native module whether LiDAR exists, record the answer, start a
  depth session when it does), the taps that run capture cycles, and the clean-up the
  effect returns, run at unmount. The native answers arrive asynchronously and in any
  interleaving with taps and with the unmount, so the lifecycle is an inductive step
  relation; \<open>depth_mod\<close> says whether \<open>ARKitDepthModule\<close> exists.

  The clean-up is created once, by the effect of the first render (its dependency list
  is empty), and tests the \<open>arSessionActive\<close> of that render. The field
  \<open>cleanup_active\<close> holds that captured value. The lemmas show, by rule induction over
  the reachable states, that the captured value is always false, so the clean-up never
  stops the session, and that a session can outlive the screen.
\<close>

datatype check_phase = Check_Idle | Await_Available | Await_Start | Check_Done

datatype lidar_call = IsLiDARAvailable | StartDepthSession | StopDepthSession

record app_state =
  app_screen :: screen
  mounted :: bool
  unmounted :: bool
  check_phase :: check_phase
  cleanup_active :: bool
  session_running :: bool
  lidar_calls :: "lidar_call list"

definition initial_screen :: screen where
  "initial_screen = \<lparr>analyzing = False, result = [], hasLiDAR = False, arSessionActive = False\<rparr>"

definition app_init :: app_state where
  "app_init =
     \<lparr>app_screen = initial_screen, mounted = False, unmounted = False, check_phase = Check_Idle,
      cleanup_active = False, session_running = False, lidar_calls = []\<rparr>"

inductive lifecycle_step :: "bool \<Rightarrow> app_state \<Rightarrow> app_state \<Rightarrow> bool" for depth_mod :: bool where
  mount:
    "\<not> mounted s \<Longrightarrow> \<not> unmounted s \<Longrightarrow>
     lifecycle_step depth_mod s
       (s\<lparr>mounted := True, cleanup_active := arSessionActive (app_screen s),
          check_phase := (if depth_mod then Await_Available else Check_Done),
          lidar_calls := lidar_calls s @ (if depth_mod then [IsLiDARAvailable] else [])\<rparr>)"
| available:
    "check_phase s = Await_Available \<Longrightarrow>
     lifecycle_step depth_mod s
       (s\<lparr>app_screen := (app_screen s)\<lparr>hasLiDAR := b\<rparr>,
          check_phase := (if b then Await_Start else Check_Done),
          lidar_calls := lidar_calls s @ (if b then [StartDepthSession] else [])\<rparr>)"
| availability_error:
    "check_phase s = Await_Available \<Longrightarrow> lifecycle_step depth_mod s (s\<lparr>check_phase := Check_Done\<rparr>)"
| started:
    "check_phase s = Await_Start \<Longrightarrow>
     lifecycle_step depth_mod s
       (s\<lparr>session_running := True, app_screen := (app_screen s)\<lparr>arSessionActive := True\<rparr>,
          check_phase := Check_Done\<rparr>)"
| start_error:
    "check_phase s = Await_Start \<Longrightarrow> lifecycle_step depth_mod s (s\<lparr>check_phase := Check_Done\<rparr>)"
| tap:
    "mounted s \<Longrightarrow> depth_module env = depth_mod \<Longrightarrow>
     lifecycle_step depth_mod s (s\<lparr>app_screen := fst (takePicture env (app_screen s))\<rparr>)"
| unmount:
    "mounted s \<Longrightarrow>
     lifecycle_step depth_mod s
       (s\<lparr>mounted := False, unmounted := True,
          session_running := (if cleanup_active s \<and> depth_mod then False else session_running s),
          lidar_calls := lidar_calls s @ (if cleanup_active s \<and> depth_mod then [StopDepthSession] else [])\<rparr>)"

inductive reachable :: "bool \<Rightarrow> app_state \<Rightarrow> bool" for depth_mod :: bool where
  init: "reachable depth_mod app_init"
| step: "reachable depth_mod s \<Longrightarrow> lifecycle_step depth_mod s t \<Longrightarrow> reachable depth_mod t"

text \<open>The state after: mount, LiDAR available, session started, unmount.\<close>

definition leak_state :: app_state where
  "leak_state =
     \<lparr>app_screen = initial_screen\<lparr>hasLiDAR := True, arSessionActive := True\<rparr>, mounted = False,
      unmounted = True, check_phase = Check_Done, cleanup_active = False, session_running = True,
      lidar_calls = [IsLiDARAvailable, StartDepthSession]\<rparr>"

definition lifecycle_inv :: "app_state \<Rightarrow> bool" where
  "lifecycle_inv s \<longleftrightarrow>
     \<not> cleanup_active s
     \<and> (\<not> mounted s \<and> \<not> unmounted s \<longrightarrow>
          app_screen s = initial_screen \<and> check_phase s = Check_Idle \<and> \<not> session_running s)
     \<and> (session_running s \<longleftrightarrow> arSessionActive (app_screen s))
     \<and> (check_phase s = Await_Available \<longrightarrow> \<not> session_running s)
     \<and> (check_phase s = Await_Start \<longrightarrow> hasLiDAR (app_screen s) \<and> \<not> session_running s)
     \<and> (session_running s \<longrightarrow> hasLiDAR (app_screen s))
     \<and> StopDepthSession \<notin> set (lidar_calls s)"

lemma lifecycle_inv_init: "lifecycle_inv app_init"
  by (simp add: lifecycle_inv_def app_init_def initial_screen_def)

lemma lifecycle_step_inv:
  assumes "lifecycle_step depth_mod s t" and "lifecycle_inv s"
  shows "lifecycle_inv t"
  using assms
proof (induction rule: lifecycle_step.induct)
  case (tap s env)
  then show ?case by (auto simp: lifecycle_inv_def takePicture_frame)
qed (auto simp: lifecycle_inv_def initial_screen_def)

lemma reachable_inv: "reachable depth_mod s \<Longrightarrow> lifecycle_inv s"
proof (induction rule: reachable.induct)
  case init
  show ?case by (rule lifecycle_inv_init)
next
  case (step s t)
  then show ?case by (blast intro: lifecycle_step_inv)
qed

lemma reachable_stepI:
  "reachable m s \<Longrightarrow> lifecycle_step m s t \<Longrightarrow> t = u \<Longrightarrow> reachable m u"
  by (blast intro: reachable.step)

lemma leak_state_reachable: "reachable True leak_state"
proof -
  let ?s1 = "app_init\<lparr>mounted := True, check_phase := Await_Available, lidar_calls := [IsLiDARAvailable]\<rparr>"
  let ?s2 = "?s1\<lparr>app_screen := initial_screen\<lparr>hasLiDAR := True\<rparr>, check_phase := Await_Start,
               lidar_calls := [IsLiDARAvailable, StartDepthSession]\<rparr>"
  let ?s3 = "?s2\<lparr>session_running := True,
               app_screen := initial_screen\<lparr>hasLiDAR := True, arSessionActive := True\<rparr>,
               check_phase := Check_Done\<rparr>"
  have r1: "reachable True ?s1"
    by (rule reachable_stepI [OF reachable.init lifecycle_step.mount])
       (simp_all add: app_init_def initial_screen_def)
  have r2: "reachable True ?s2"
    by (rule reachable_stepI [OF r1 lifecycle_step.available [where b = True]]) (simp_all add: app_init_def)
  have r3: "reachable True ?s3"
    by (rule reachable_stepI [OF r2 lifecycle_step.started]) (simp_all add: app_init_def)
  show ?thesis
    by (rule reachable_stepI [OF r3 lifecycle_step.unmount]) (simp_all add: app_init_def leak_state_def)
qed

subsection \<open>Properties of the lifecycle\<close>

text \<open>
  C23. In every reachable state the screen's \<open>arSessionActive\<close> flag agrees with the
  native depth session, and a running session implies that LiDAR was reported available;
  taps never change either.
\<close>

theorem session_flag_agrees:
  assumes "reachable m s"
  shows "(session_running s \<longleftrightarrow> arSessionActive (app_screen s)) \<and>
         (session_running s \<longrightarrow> hasLiDAR (app_screen s))"
  using reachable_inv [OF assms] by (simp add: lifecycle_inv_def)

theorem session_flag_agrees_witness:
  "reachable True leak_state \<and> session_running leak_state \<and>
   arSessionActive (app_screen leak_state) \<and> hasLiDAR (app_screen leak_state)"
  using leak_state_reachable session_flag_agrees [OF leak_state_reachable]
  by (simp add: leak_state_def)

text \<open>
  C26. The clean-up returned by the mount effect closes over the first render, where
  \<open>arSessionActive\<close> is false: in every reachable state its captured flag is false and
  \<open>stopDepthSession\<close> has never been called.
\<close>

theorem cleanup_never_stops:
  assumes "reachable m s"
  shows "\<not> cleanup_active s \<and> StopDepthSession \<notin> set (lidar_calls s)"
  using reachable_inv [OF assms] by (simp add: lifecycle_inv_def)

theorem cleanup_never_stops_witness:
  "reachable True leak_state \<and> \<not> cleanup_active leak_state \<and>
   StopDepthSession \<notin> set (lidar_calls leak_state)"
  using leak_state_reachable cleanup_never_stops [OF leak_state_reachable] by simp

end
