(* ===== verification/Cycle_Steps.thy ===== *)
theory Cycle_Steps
  imports Capture_Cycle
begin

text \<open>
  The capture cycle of \<open>takePicture\<close> (\<open>src/app/(tabs)/index.tsx\<close>, lines 100--285)
  cut at its suspension points. An \<open>async\<close> function runs synchronously up to an
  \<open>await\<close> on a pending promise and resumes later, when the promise settles, with other
  events (taps, the LiDAR check, the unmount) possibly handled in between. The cycle
  waits on four collaborators: the camera (line 108), the S3 upload (line 131),
  Rekognition (line 145) and the depth read inside \<open>getARKitDistance\<close> (line 92);
  \<open>cycle_pc\<close> names the await a suspended cycle sits at. The awaits on \<open>speakText\<close>
  do not wait for a collaborator whose answer the model tracks (speech is
  fire-and-forget) and are kept inside the segment around them.

  \<open>start_cycle\<close> is what a tap runs synchronously: the guard, \<open>setAnalyzing(true)\<close>,
  the opening announcement and the camera call. \<open>resume_cycle\<close> runs the code from one
  await to the next, given the collaborator's answer from \<open>cycle_env\<close>. The
  \<open>try\<close>/\<open>catch\<close>/\<open>finally\<close> of the function spans all segments, so each segment
  is wrapped by \<open>cycle_segment\<close>: a segment that suspends is still inside the
  \<open>try\<close>; one that throws runs the \<open>catch\<close> block \<open>on_error\<close> and then the
  \<open>finally\<close>; one that returns runs the \<open>finally\<close>.

  The lemmas give each segment in closed form, show that every resumption either ends
  the cycle or suspends at a later await (so a cycle suspends at most four times), and
  that running the segments one after the other computes exactly \<open>takePicture\<close>.
\<close>

datatype cycle_pc = Await_Camera | Await_Upload | Await_Detect | Await_Depth "label list"

text \<open>The number of awaits still ahead of a suspended cycle, at most.\<close>

primrec pc_rank :: "cycle_pc \<Rightarrow> nat" where
  "pc_rank Await_Camera = 3"
| "pc_rank Await_Upload = 2"
| "pc_rank Await_Detect = 1"
| "pc_rank (Await_Depth objs) = 0"

definition cycle_segment ::
  "cycle_env \<Rightarrow> cycle_pc option cycle_action \<Rightarrow> cycle_pc option cycle_action" where
  "cycle_segment env m =
     js_bind (js_catch m (\<lambda>error. js_then (on_error env error) (js_return None)))
       (\<lambda>r. case r of
              None \<Rightarrow> js_then (set_state (\<lambda>s. s\<lparr>analyzing := False\<rparr>)) (js_return None)
            | Some pc \<Rightarrow> js_return (Some pc))"

definition start_cycle :: "cycle_env \<Rightarrow> screen \<Rightarrow> cycle_pc option cycle_action" where
  "start_cycle env st =
     (if analyzing st \<or> \<not> camera_module env then js_return None
      else js_then (set_state (\<lambda>s. s\<lparr>analyzing := True\<rparr>)) (
           js_then (speakText env ''Opening camera'') (
           cycle_segment env (js_then (emit CameraTakePicture) (js_return (Some Await_Camera))))))"

text \<open>Lines 110--131: from the photo to the upload request.\<close>

definition after_camera :: "cycle_env \<Rightarrow> photo option \<Rightarrow> cycle_pc option cycle_action" where
  "after_camera env photo =
     (case (case photo of None \<Rightarrow> None | Some p \<Rightarrow> base64 p) of
        None \<Rightarrow> js_throw no_image_data
      | Some b64 \<Rightarrow> if b64 = [] then js_throw no_image_data else
        js_then (set_state (\<lambda>s. s\<lparr>result := ''Analyzing image...''\<rparr>)) (
        js_then (speakText env ''Analyzing'') (
        let key = analysis_key (now env) in
        js_bind (base64ToUint8Array env b64) (\<lambda>imageBytes.
        js_then (emit (S3PutObject (s3_bucket env) key imageBytes)) (js_return (Some Await_Upload))))))"

text \<open>Lines 267--268: show and speak the description; the \<open>try\<close> block ends.\<close>

definition finish_description :: "cycle_env \<Rightarrow> js_number option \<Rightarrow> label list \<Rightarrow> cycle_pc option cycle_action" where
  "finish_description env realDistance physicalObjects =
     (let description = describe realDistance physicalObjects in
      js_then (set_state (\<lambda>s. s\<lparr>result := description\<rparr>))
        (js_then (speakText env description) (js_return None)))"

text \<open>
  Lines 146--171: filter the labels; with LiDAR, call \<open>getARKitDistance\<close>, which
  suspends at the depth read when the module exists and returns \<open>null\<close> at once
  otherwise.
\<close>

definition after_detect :: "cycle_env \<Rightarrow> screen \<Rightarrow> label list option \<Rightarrow> cycle_pc option cycle_action" where
  "after_detect env st labels =
     (let allLabels = (case labels of None \<Rightarrow> [] | Some ls \<Rightarrow> ls);
          physicalObjects = physical_objects allLabels in
      if hasLiDAR st \<and> depth_module env
      then js_then (emit DepthAtCenter) (js_return (Some (Await_Depth physicalObjects)))
      else finish_description env None physicalObjects)"

definition resume_cycle :: "cycle_env \<Rightarrow> screen \<Rightarrow> cycle_pc \<Rightarrow> cycle_pc option cycle_action" where
  "resume_cycle env st pc =
     cycle_segment env
       (case pc of
          Await_Camera \<Rightarrow> js_bind (await_result (capture_result env)) (after_camera env)
        | Await_Upload \<Rightarrow>
            js_then (await_result (case upload_result env of Some e \<Rightarrow> Inl e | None \<Rightarrow> Inr ()))
              (js_then (emit (RekognitionDetectLabels (s3_bucket env) (analysis_key (now env)) 10 70))
                 (js_return (Some Await_Detect)))
        | Await_Detect \<Rightarrow> js_bind (await_result (detect_result env)) (after_detect env st)
        | Await_Depth physicalObjects \<Rightarrow>
            js_bind (js_catch (js_bind (await_result (depth_result env)) (\<lambda>depthData. js_return (Some depthData)))
                       (\<lambda>error. js_return None))
              (\<lambda>realDistance. finish_description env realDistance physicalObjects))"

text \<open>
  Running a cycle with nothing in between: each pending await settles in turn, at most
  \<open>n\<close> times. A resumption that threw would leave the cycle where it was; none does.
\<close>

fun run_cycle :: "nat \<Rightarrow> cycle_env \<Rightarrow> screen \<Rightarrow> cycle_pc option \<Rightarrow> cycle_state \<Rightarrow> cycle_pc option \<times> cycle_state" where
  "run_cycle 0 env st pc s = (pc, s)"
| "run_cycle (Suc n) env st None s = (None, s)"
| "run_cycle (Suc n) env st (Some pc) s =
     (case resume_cycle env st pc s of
        (Inr pc', s') \<Rightarrow> run_cycle n env st pc' s'
      | (Inl e, s') \<Rightarrow> (Some pc, s'))"

subsection \<open>Each segment in closed form\<close>

lemma on_error_apply:
  "on_error env e (st, tr) =
     (Inr (), if err_code e = Some ''CANCELLED'' then (st\<lparr>result := [], analyzing := False\<rparr>, tr)
              else (st\<lparr>result := ''Analysis failed: '' @ error_details e\<rparr>, tr @ speak_trace env apology))"
  by (simp add: on_error_def cycle_simps apology_def)

lemma cycle_segment_apply:
  "cycle_segment env m s =
     (case m s of
        (Inl e, st', tr') \<Rightarrow> (Inr None, fail_end env e st' tr')
      | (Inr None, st', tr') \<Rightarrow> (Inr None, st'\<lparr>analyzing := False\<rparr>, tr')
      | (Inr (Some pc), s') \<Rightarrow> (Inr (Some pc), s'))"
  by (simp add: cycle_segment_def cycle_simps on_error_apply fail_end_def
      split: prod.split sum.split option.split)

lemma start_cycle_apply:
  "start_cycle env st (s, tr) =
     (if analyzing st \<or> \<not> camera_module env then (Inr None, s, tr)
      else (Inr (Some Await_Camera), s\<lparr>analyzing := True\<rparr>,
            tr @ speak_trace env ''Opening camera'' @ [CameraTakePicture]))"
  by (simp add: start_cycle_def cycle_segment_apply cycle_simps)

lemma finish_description_apply:
  "finish_description env rd objs (s, tr) =
     (Inr None, s\<lparr>result := describe rd objs\<rparr>, tr @ speak_trace env (describe rd objs))"
  by (simp add: finish_description_def cycle_simps Let_def)

lemma resume_camera_apply:
  "resume_cycle env st Await_Camera (s, tr) =
     (case capture_result env of
        Inl e \<Rightarrow> (Inr None, fail_end env e s (tr))
      | Inr photo \<Rightarrow>
        (case photo_data photo of
           None \<Rightarrow> (Inr None, fail_end env no_image_data s tr)
         | Some b64 \<Rightarrow>
           (case atob env b64 of
              Inl e \<Rightarrow> (Inr None, fail_end env e (s\<lparr>result := ''Analyzing image...''\<rparr>) (tr @ speak_trace env ''Analyzing''))
            | Inr bin \<Rightarrow> (Inr (Some Await_Upload), s\<lparr>result := ''Analyzing image...''\<rparr>,
                          tr @ speak_trace env ''Analyzing'' @ [S3PutObject (s3_bucket env) (analysis_key (now env)) (map word_of_nat bin)]))))"
  by (simp add: resume_cycle_def cycle_segment_apply after_camera_def photo_data_def cycle_simps
      split: sum.split option.split)

lemma resume_upload_apply:
  "resume_cycle env st Await_Upload (s, tr) =
     (case upload_result env of
        Some e \<Rightarrow> (Inr None, fail_end env e s tr)
      | None \<Rightarrow> (Inr (Some Await_Detect), s, tr @ [RekognitionDetectLabels (s3_bucket env) (analysis_key (now env)) 10 70]))"
  by (simp add: resume_cycle_def cycle_segment_apply cycle_simps split: option.split)

lemma resume_detect_apply:
  "resume_cycle env st Await_Detect (s, tr) =
     (case detect_result env of
        Inl e \<Rightarrow> (Inr None, fail_end env e s tr)
      | Inr labels \<Rightarrow>
         if hasLiDAR st \<and> depth_module env
         then (Inr (Some (Await_Depth (physical_objects (case labels of None \<Rightarrow> [] | Some ls \<Rightarrow> ls)))),
               s, tr @ [DepthAtCenter])
         else (Inr None, s\<lparr>result := describe None (physical_objects (case labels of None \<Rightarrow> [] | Some ls \<Rightarrow> ls)),
                            analyzing := False\<rparr>,
               tr @ speak_trace env (describe None (physical_objects (case labels of None \<Rightarrow> [] | Some ls \<Rightarrow> ls)))))"
  by (cases "detect_result env")
     (simp_all add: resume_cycle_def cycle_segment_apply after_detect_def finish_description_apply cycle_simps Let_def)

lemma resume_depth_apply:
  "resume_cycle env st (Await_Depth objs) (s, tr) =
     (Inr None, s\<lparr>result := describe (case depth_result env of Inl _ \<Rightarrow> None | Inr d \<Rightarrow> Some d) objs, analyzing := False\<rparr>,
      tr @ speak_trace env (describe (case depth_result env of Inl _ \<Rightarrow> None | Inr d \<Rightarrow> Some d) objs))"
  by (cases "depth_result env")
     (simp_all add: resume_cycle_def cycle_segment_apply finish_description_apply cycle_simps)

lemmas resume_apply = resume_camera_apply resume_upload_apply resume_detect_apply resume_depth_apply

lemma resume_progress:
  obtains p s' where "resume_cycle env st pc s = (Inr p, s')"
    and "case p of None \<Rightarrow> True | Some pc' \<Rightarrow> pc_rank pc' < pc_rank pc"
proof -
  obtain st0 tr0 where s: "s = (st0, tr0)" by (cases s)
  have "\<exists>p s'. resume_cycle env st pc s = (Inr p, s') \<and>
          (case p of None \<Rightarrow> True | Some pc' \<Rightarrow> pc_rank pc' < pc_rank pc)"
    unfolding s by (cases pc) (simp_all add: resume_apply split: sum.split option.split)
  then show ?thesis using that by blast
qed

lemma pc_rank_le [simp]: "pc_rank pc \<le> 3"
  by (cases pc) simp_all

subsection \<open>The segmented cycle is the cycle\<close>

text \<open>
  The tap's synchronous part followed by the resumptions, with no other event in
  between, ends the cycle within four resumptions and leaves exactly the state and the
  calls of \<open>takePicture\<close>: the two models of lines 100--285 agree.
\<close>

lemma cycle_steps_equiv:
  "\<exists>pc s1. start_cycle env st (st, []) = (Inr pc, s1) \<and> run_cycle 4 env st pc s1 = (None, takePicture env st)"
  by (auto simp: start_cycle_apply takePicture_outcome outcome_unfold resume_apply
      numeral_eq_Suc depth_reading_def depth_trace_def split: sum.split option.split)

end
