(* ===== verification/Screen_View.thy ===== *)
theory Screen_View
  imports Capture_Cycle
begin

text \<open>
  What the screen shows (\<open>src/app/(tabs)/index.tsx\<close>, lines 287--434): the element
  tree \<open>HomeScreen\<close> returns for a state, and the style sheet its elements refer to.
  The tree is the datatype \<open>view\<close>, one constructor per React Native element the screen
  uses (\<open>View\<close>, \<open>Text\<close>, \<open>TouchableOpacity\<close>, \<open>ActivityIndicator\<close>); a \<open>style\<close>
  prop is the list of its entries, \<open>styles.x\<close> or the \<open>false\<close> of a failed
  \<open>cond && styles.x\<close>. \<open>home_view\<close> is the \<open>return\<close> of the component, element by
  element; a \<open>{cond && <X/>}\<close> child is a list that is empty when \<open>cond\<close> is false,
  a string condition (\<open>{result ? ...}\<close>) is false on the empty string, as in
  JavaScript. \<open>styles\<close> is the object passed to \<open>StyleSheet.create\<close>, property by
  property, and \<open>flatten_style\<close> is how React Native merges the entries of a style
  array (later entries override earlier ones, \<open>false\<close> is skipped).
  The two emoji of the screen are written as their UTF-8 bytes.

  The lemmas show that every style the tree names exists and every text is non-empty,
  that the one button is disabled exactly while \<open>analyzing\<close> holds, which texts are on
  screen in each state, and which properties the disabled style overrides.
\<close>

subsection \<open>The style sheet\<close>

datatype style_value = Num js_number | Str string | Obj "(string \<times> style_value) list"

type_synonym style = "(string \<times> style_value) list"

definition styles :: "(string \<times> style) list" where
  "styles =
    [(''container'', [(''flex'', Num 1), (''backgroundColor'', Str ''#000'')]),
     (''content'', [(''flex'', Num 1), (''justifyContent'', Str ''space-between''),
                    (''paddingTop'', Num 60), (''paddingBottom'', Num 50)]),
     (''header'', [(''alignItems'', Str ''center''), (''padding'', Num 20)]),
     (''title'', [(''color'', Str ''white''), (''fontSize'', Num 32), (''fontWeight'', Str ''bold''),
                  (''marginBottom'', Num 10)]),
     (''lidarBadge'', [(''backgroundColor'', Str ''rgba(0, 255, 0, 0.3)''), (''paddingHorizontal'', Num 12),
                       (''paddingVertical'', Num 6), (''borderRadius'', Num 15), (''borderWidth'', Num 1),
                       (''borderColor'', Str ''#00ff00'')]),
     (''lidarText'', [(''color'', Str ''#00ff00''), (''fontSize'', Num 14), (''fontWeight'', Str ''bold'')]),
     (''instructionContainer'', [(''backgroundColor'', Str ''rgba(255, 255, 255, 0.1)''), (''padding'', Num 20),
                                 (''margin'', Num 20), (''borderRadius'', Num 15)]),
     (''instructionText'', [(''color'', Str ''white''), (''fontSize'', Num 18), (''textAlign'', Str ''center''),
                            (''lineHeight'', Num 26)]),
     (''instructionSubtext'', [(''color'', Str ''#00ff00''), (''fontSize'', Num 14), (''textAlign'', Str ''center''),
                               (''marginTop'', Num 10)]),
     (''resultContainer'', [(''backgroundColor'', Str ''rgba(0, 122, 255, 0.2)''), (''padding'', Num 25),
                            (''margin'', Num 20), (''borderRadius'', Num 15), (''borderWidth'', Num 2),
                            (''borderColor'', Str ''#007AFF'')]),
     (''resultText'', [(''color'', Str ''white''), (''fontSize'', Num 20), (''textAlign'', Str ''center''),
                       (''lineHeight'', Num 30), (''fontWeight'', Str ''500'')]),
     (''controlsContainer'', [(''alignItems'', Str ''center'')]),
     (''captureButton'', [(''width'', Num 90), (''height'', Num 90), (''borderRadius'', Num 45),
                          (''backgroundColor'', Str ''#007AFF''), (''justifyContent'', Str ''center''),
                          (''alignItems'', Str ''center''), (''shadowColor'', Str ''#007AFF''),
                          (''shadowOffset'', Obj [(''width'', Num 0), (''height'', Num 4)]),
                          (''shadowOpacity'', Num 0.5), (''shadowRadius'', Num 10), (''elevation'', Num 8)]),
     (''captureButtonDisabled'', [(''backgroundColor'', Str ''#666''), (''shadowColor'', Str ''#000'')]),
     (''captureButtonText'', [(''fontSize'', Num 45)]),
     (''buttonLabel'', [(''color'', Str ''white''), (''fontSize'', Num 18), (''marginTop'', Num 15),
                        (''fontWeight'', Str ''600'')])]"

datatype style_entry = Style_Ref string | Style_False

text \<open>\<open>styles.x\<close> is \<open>undefined\<close> for a name the sheet lacks; React Native skips it.\<close>

definition resolve_entry :: "style_entry \<Rightarrow> style" where
  "resolve_entry e =
     (case e of Style_Ref n \<Rightarrow> (case map_of styles n of Some s \<Rightarrow> s | None \<Rightarrow> []) | Style_False \<Rightarrow> [])"

definition flatten_style :: "style_entry list \<Rightarrow> string \<Rightarrow> style_value option" where
  "flatten_style es = foldl (\<lambda>m e. m ++ map_of (resolve_entry e)) Map.empty es"

subsection \<open>The element tree\<close>

text \<open>
  \<open>Touchable style disabled label children\<close> is the \<open>TouchableOpacity\<close>; its
  \<open>onPress\<close> is always \<open>takePicture\<close>, so it is left implicit. \<open>Spinner size color\<close>
  is the \<open>ActivityIndicator\<close>.
\<close>

datatype view =
    View "style_entry list" "view list"
  | Text "style_entry list" string
  | Touchable "style_entry list" bool string "view list"
  | Spinner string string

definition satellite_emoji :: string where
  "satellite_emoji = map char_of [240, 159, 147, 161 :: nat]"

definition camera_emoji :: string where
  "camera_emoji = map char_of [240, 159, 147, 184 :: nat]"

definition instruction_text :: string where
  "instruction_text = ''Tap the button to take a picture and analyze your surroundings''"

definition home_view :: "screen \<Rightarrow> view" where
  "home_view st =
     View [Style_Ref ''container''] [
       View [Style_Ref ''content''] [
         View [Style_Ref ''header''] (
           [Text [Style_Ref ''title''] ''SeeWithYou'']
           @ (if hasLiDAR st
              then [View [Style_Ref ''lidarBadge'']
                      [Text [Style_Ref ''lidarText''] (satellite_emoji @ '' LiDAR Active'')]]
              else [])),
         (if result st \<noteq> []
          then View [Style_Ref ''resultContainer''] [Text [Style_Ref ''resultText''] (result st)]
          else View [Style_Ref ''instructionContainer''] (
                 [Text [Style_Ref ''instructionText''] instruction_text]
                 @ (if hasLiDAR st
                    then [Text [Style_Ref ''instructionSubtext''] ''Using LiDAR for accurate distance measurement'']
                    else []))),
         View [Style_Ref ''controlsContainer''] [
           Touchable [Style_Ref ''captureButton'',
                      if analyzing st then Style_Ref ''captureButtonDisabled'' else Style_False]
             (analyzing st) ''Take picture and analyze''
             [if analyzing st then Spinner ''large'' ''white''
              else Text [Style_Ref ''captureButtonText''] camera_emoji],
           Text [Style_Ref ''buttonLabel''] (if analyzing st then ''Analyzing...'' else ''Tap to Analyze'')]]]"

subsection \<open>Reading a tree\<close>

text \<open>The texts of a tree in document order, its buttons, and its style references.\<close>

fun texts :: "view \<Rightarrow> string list" where
  "texts (View s vs) = concat (map texts vs)"
| "texts (Text s t) = [t]"
| "texts (Touchable s d l vs) = concat (map texts vs)"
| "texts (Spinner sz c) = []"

fun buttons :: "view \<Rightarrow> (bool \<times> string) list" where
  "buttons (View s vs) = concat (map buttons vs)"
| "buttons (Text s t) = []"
| "buttons (Touchable s d l vs) = (d, l) # concat (map buttons vs)"
| "buttons (Spinner sz c) = []"

fun spinners :: "view \<Rightarrow> nat" where
  "spinners (View s vs) = sum_list (map spinners vs)"
| "spinners (Text s t) = 0"
| "spinners (Touchable s d l vs) = sum_list (map spinners vs)"
| "spinners (Spinner sz c) = 1"

fun style_refs :: "view \<Rightarrow> string list" where
  "style_refs (View s vs) = [n. Style_Ref n \<leftarrow> s] @ concat (map style_refs vs)"
| "style_refs (Text s t) = [n. Style_Ref n \<leftarrow> s]"
| "style_refs (Touchable s d l vs) = [n. Style_Ref n \<leftarrow> s] @ concat (map style_refs vs)"
| "style_refs (Spinner sz c) = []"

fun touchable_styles :: "view \<Rightarrow> style_entry list list" where
  "touchable_styles (View s vs) = concat (map touchable_styles vs)"
| "touchable_styles (Text s t) = []"
| "touchable_styles (Touchable s d l vs) = s # concat (map touchable_styles vs)"
| "touchable_styles (Spinner sz c) = []"

text \<open>A well-formed tree: every style it names is in the sheet and no text is empty.\<close>

definition view_ok :: "view \<Rightarrow> bool" where
  "view_ok v \<longleftrightarrow> list_all (\<lambda>n. map_of styles n \<noteq> None) (style_refs v) \<and> list_all (\<lambda>t. t \<noteq> []) (texts v)"

subsection \<open>Reading the screen of a state\<close>

lemmas home_view_unfold = home_view_def satellite_emoji_def camera_emoji_def instruction_text_def

text \<open>The texts on screen, in document order: title, badge, message panel, button, label.\<close>

lemma home_texts:
  "texts (home_view st) =
     ''SeeWithYou'' # (if hasLiDAR st then [satellite_emoji @ '' LiDAR Active''] else [])
     @ (if result st \<noteq> [] then [result st]
        else instruction_text # (if hasLiDAR st then [''Using LiDAR for accurate distance measurement''] else []))
     @ (if analyzing st then [] else [camera_emoji])
     @ [if analyzing st then ''Analyzing...'' else ''Tap to Analyze'']"
  by (simp add: home_view_def)

lemma buttons_home_view: "buttons (home_view st) = [(analyzing st, ''Take picture and analyze'')]"
  by (simp add: home_view_def)

text \<open>Merging a style array is a lookup in its entries, last entry first.\<close>

lemma flatten_style_ref: "flatten_style es = map_of (concat (rev (map resolve_entry es)))"
proof -
  have "\<And>m. foldl (\<lambda>m e. m ++ map_of (resolve_entry e)) m es = m ++ map_of (concat (rev (map resolve_entry es)))"
    by (induction es) simp_all
  then show ?thesis by (simp add: flatten_style_def)
qed

subsection \<open>Properties of the screen\<close>

text \<open>
  C28. The element tree is well formed in every state: every style it names is defined
  by the style sheet and every text element has a non-empty text.
\<close>

theorem home_view_ok: "view_ok (home_view st)"
  by (simp add: view_ok_def home_view_unfold styles_def)

text \<open>
  C29. The screen has exactly one button, labelled for screen readers "Take picture and
  analyze"; it is disabled exactly while \<open>analyzing\<close> holds, the activity indicator
  replaces its icon exactly then, and its effective style is the \<open>captureButton\<close>
  style with exactly its background and shadow colours replaced by grey and black.
\<close>

theorem home_button:
  "buttons (home_view st) = [(analyzing st, ''Take picture and analyze'')] \<and>
   spinners (home_view st) = (if analyzing st then 1 else 0) \<and>
   map flatten_style (touchable_styles (home_view st)) =
     [if analyzing st
      then (map_of (the (map_of styles ''captureButton'')))
             (''backgroundColor'' \<mapsto> Str ''#666'', ''shadowColor'' \<mapsto> Str ''#000'')
      else map_of (the (map_of styles ''captureButton''))]"
proof (intro conjI)
  show "buttons (home_view st) = [(analyzing st, ''Take picture and analyze'')]"
    by (rule buttons_home_view)
  show "spinners (home_view st) = (if analyzing st then 1 else 0)"
    by (simp add: home_view_def)
  show "map flatten_style (touchable_styles (home_view st)) =
     [if analyzing st
      then (map_of (the (map_of styles ''captureButton'')))
             (''backgroundColor'' \<mapsto> Str ''#666'', ''shadowColor'' \<mapsto> Str ''#000'')
      else map_of (the (map_of styles ''captureButton''))]"
    by (auto simp: home_view_def flatten_style_def resolve_entry_def styles_def fun_eq_iff)
qed

end
