(* ===== verification/Screen_Events.thy ===== *)
theory Screen_Events
  imports Cycle_Steps Screen_View Lidar_Lifecycle
begin

text \<open>
  The mounted screen as an event system: the user presses the button, a suspended cycle
  resumes when its collaborator answers, the LiDAR check writes its two flags, the
  screen unmounts, in any order. A press reaches \<open>takePicture\<close> only through the
  \<open>TouchableOpacity\<close> of \<open>home_view\<close> (lines 317--328), which React Native does not
  fire while \<open>disabled\<close>; the handler closes over the state of the last render, which
  React has committed before it delivers the next press, so the closure is the current
  screen. A cycle in flight is a \<open>task\<close>: its collaborators' answers, the state it
  closed over and the await it is suspended at. A resumption runs
  \<open>resume_cycle\<close>; after the unmount, React drops the state updates of a running cycle
  but its calls to the collaborators still happen. The answers of \<open>checkLiDAR\<close> (lines
  39--53, modelled in \<open>Lidar_Lifecycle\<close>) may arrive at any moment and are an event
  that sets \<open>hasLiDAR\<close> and \<open>arSessionActive\<close>.

  \<open>ui_inv\<close> is the invariant of the reachable states: at most one cycle is in flight,
  and while the screen is mounted \<open>analyzing\<close> holds exactly when one is. From every
  reachable state the cycle in flight ends within four resumptions; after an unmount it
  still runs to its end.
\<close>

record task =
  task_env :: cycle_env
  task_closure :: screen
  task_pc :: cycle_pc

record ui_state =
  ui_screen :: screen
  ui_trace :: "effect list"
  ui_mounted :: bool
  ui_tasks :: "task list"

definition ui_init :: ui_state where
  "ui_init = \<lparr>ui_screen = initial_screen, ui_trace = [], ui_mounted = True, ui_tasks = []\<rparr>"

text \<open>The press reaches \<open>onPress\<close> only when the one button of the tree is enabled.\<close>

definition press_enabled :: "view \<Rightarrow> bool" where
  "press_enabled v = (case buttons v of [(disabled, label)] \<Rightarrow> \<not> disabled | _ \<Rightarrow> False)"

definition new_task :: "cycle_env \<Rightarrow> screen \<Rightarrow> cycle_pc option \<Rightarrow> task list" where
  "new_task env st r = (case r of None \<Rightarrow> [] | Some pc \<Rightarrow> [\<lparr>task_env = env, task_closure = st, task_pc = pc\<rparr>])"

definition resumed_tasks :: "task list \<Rightarrow> nat \<Rightarrow> cycle_pc option \<Rightarrow> task list" where
  "resumed_tasks ts i r =
     (case r of None \<Rightarrow> take i ts @ drop (Suc i) ts | Some pc \<Rightarrow> ts[i := (ts ! i)\<lparr>task_pc := pc\<rparr>])"

inductive ui_step :: "ui_state \<Rightarrow> ui_state \<Rightarrow> bool" where
  press:
    "ui_mounted u \<Longrightarrow> press_enabled (home_view (ui_screen u)) \<Longrightarrow>
     start_cycle env (ui_screen u) (ui_screen u, ui_trace u) = (Inr r, st', tr') \<Longrightarrow>
     ui_step u (u\<lparr>ui_screen := st', ui_trace := tr', ui_tasks := ui_tasks u @ new_task env (ui_screen u) r\<rparr>)"
| resume:
    "i < length (ui_tasks u) \<Longrightarrow> t = ui_tasks u ! i \<Longrightarrow>
     resume_cycle (task_env t) (task_closure t) (task_pc t) (ui_screen u, ui_trace u) = (Inr r, st', tr') \<Longrightarrow>
     ui_step u (u\<lparr>ui_screen := (if ui_mounted u then st' else ui_screen u), ui_trace := tr',
                  ui_tasks := resumed_tasks (ui_tasks u) i r\<rparr>)"
| lidar:
    "ui_mounted u \<Longrightarrow> ui_step u (u\<lparr>ui_screen := (ui_screen u)\<lparr>hasLiDAR := b, arSessionActive := a\<rparr>\<rparr>)"
| unmount:
    "ui_mounted u \<Longrightarrow> ui_step u (u\<lparr>ui_mounted := False\<rparr>)"

inductive ui_reachable :: "ui_state \<Rightarrow> bool" where
  init: "ui_reachable ui_init"
| step: "ui_reachable u \<Longrightarrow> ui_step u u' \<Longrightarrow> ui_reachable u'"

definition ui_inv :: "ui_state \<Rightarrow> bool" where
  "ui_inv u \<longleftrightarrow> length (ui_tasks u) \<le> 1 \<and> (ui_mounted u \<longrightarrow> (analyzing (ui_screen u) \<longleftrightarrow> ui_tasks u \<noteq> []))"

text \<open>The collaborators of \<open>Capture_Cycle\<close>'s example, and the state right after a press
  on the first render with them.\<close>

definition example_task :: "cycle_pc \<Rightarrow> task" where
  "example_task pc = \<lparr>task_env = example_env, task_closure = initial_screen, task_pc = pc\<rparr>"

definition pressed_state :: ui_state where
  "pressed_state =
     ui_init\<lparr>ui_screen := initial_screen\<lparr>analyzing := True\<rparr>,
             ui_trace := speak_trace example_env ''Opening camera'' @ [CameraTakePicture],
             ui_tasks := [example_task Await_Camera]\<rparr>"

subsection \<open>Lemmas on the steps\<close>

lemma press_enabled_home [simp]: "press_enabled (home_view st) \<longleftrightarrow> \<not> analyzing st"
  by (simp add: press_enabled_def home_view_def)

lemma resume_analyzing:
  assumes "resume_cycle env st pc (s, tr) = (Inr r, s', tr')"
  shows "analyzing s' \<longleftrightarrow> r \<noteq> None \<and> analyzing s"
  using assms by (cases pc) (auto simp: resume_apply fail_end_def split: sum.splits option.splits if_splits)

lemma start_cycle_cases:
  assumes "start_cycle env st (s, tr) = (Inr r, s', tr')" and "\<not> analyzing st"
  shows "(r = None \<and> s' = s) \<or> (r = Some Await_Camera \<and> analyzing s')"
  using assms by (auto simp: start_cycle_apply split: if_splits)

lemma ui_inv_init: "ui_inv ui_init"
  by (simp add: ui_inv_def ui_init_def initial_screen_def)

lemma ui_step_inv:
  assumes "ui_step u u'" and "ui_inv u"
  shows "ui_inv u'"
  using assms
proof (induction rule: ui_step.induct)
  case (press u env r st' tr')
  then show ?case
    using start_cycle_cases [OF press.hyps(3)]
    by (auto simp: ui_inv_def new_task_def)
next
  case (resume i u t r st' tr')
  then have one: "ui_tasks u = [t]" and i: "i = 0"
    by (auto simp: ui_inv_def le_Suc_eq length_Suc_conv)
  show ?case
    using resume.prems resume_analyzing [OF resume.hyps(3)] one i
    by (cases r) (auto simp: ui_inv_def resumed_tasks_def)
next
  case (lidar u b a)
  then show ?case by (simp add: ui_inv_def)
next
  case (unmount u)
  then show ?case by (simp add: ui_inv_def)
qed

lemma ui_reachable_inv: "ui_reachable u \<Longrightarrow> ui_inv u"
  by (induction rule: ui_reachable.induct) (auto intro: ui_inv_init ui_step_inv)


lemma ui_reachable_stepI: "ui_reachable u \<Longrightarrow> ui_step u v \<Longrightarrow> v = w \<Longrightarrow> ui_reachable w"
  by (blast intro: ui_reachable.step)

lemma ui_stepI: "ui_step u v \<Longrightarrow> v = w \<Longrightarrow> ui_step u w"
  by simp

lemma press_from_init: "ui_step ui_init pressed_state"
proof -
  have "ui_step ui_init
          (ui_init\<lparr>ui_screen := initial_screen\<lparr>analyzing := True\<rparr>,
                   ui_trace := speak_trace example_env ''Opening camera'' @ [CameraTakePicture],
                   ui_tasks := ui_tasks ui_init @ new_task example_env (ui_screen ui_init) (Some Await_Camera)\<rparr>)"
    by (rule ui_step.press) (simp_all add: ui_init_def start_cycle_apply initial_screen_def example_defs)
  then show ?thesis by (simp add: pressed_state_def new_task_def example_task_def ui_init_def)
qed

lemma pressed_state_reachable: "ui_reachable pressed_state"
  by (rule ui_reachable.step [OF ui_reachable.init press_from_init])

lemma ui_drain:
  assumes "ui_tasks u = [t]"
  shows "\<exists>n u'. n \<le> Suc (pc_rank (task_pc t)) \<and> (ui_step ^^ n) u u' \<and> ui_tasks u' = [] \<and>
                (ui_mounted u' \<longrightarrow> \<not> analyzing (ui_screen u'))"
  using assms
proof (induction "pc_rank (task_pc t)" arbitrary: u t rule: less_induct)
  case less
  obtain p s' where r: "resume_cycle (task_env t) (task_closure t) (task_pc t) (ui_screen u, ui_trace u) = (Inr p, s')"
    and rank: "case p of None \<Rightarrow> True | Some pc' \<Rightarrow> pc_rank pc' < pc_rank (task_pc t)"
    by (rule resume_progress)
  obtain st' tr' where s': "s' = (st', tr')" by (cases s')
  let ?u1 = "u\<lparr>ui_screen := (if ui_mounted u then st' else ui_screen u), ui_trace := tr',
               ui_tasks := resumed_tasks (ui_tasks u) 0 p\<rparr>"
  have step: "ui_step u ?u1"
    by (rule ui_step.resume [where i = 0 and t = t]) (simp_all add: less.prems r [unfolded s'])
  show ?case
  proof (cases p)
    case None
    have "ui_tasks ?u1 = []" using None less.prems by (simp add: resumed_tasks_def)
    moreover have "ui_mounted ?u1 \<longrightarrow> \<not> analyzing (ui_screen ?u1)"
      using resume_analyzing [OF r [unfolded s']] None by simp
    moreover have "(ui_step ^^ Suc 0) u ?u1" using step by (rule relpowp_one_step)
    ultimately show ?thesis by blast
  next
    case (Some pc')
    let ?t = "t\<lparr>task_pc := pc'\<rparr>"
    have tasks: "ui_tasks ?u1 = [?t]" using Some less.prems by (simp add: resumed_tasks_def)
    have "pc_rank (task_pc ?t) < pc_rank (task_pc t)" using rank Some by simp
    then obtain n u' where "n \<le> Suc (pc_rank (task_pc ?t))" and run: "(ui_step ^^ n) ?u1 u'"
      and "ui_tasks u' = []" and "ui_mounted u' \<longrightarrow> \<not> analyzing (ui_screen u')"
      using less.hyps [OF _ tasks] by blast
    moreover have "(ui_step ^^ Suc n) u u'" using step run by (rule relpowp_Suc_I2)
    moreover have "Suc n \<le> Suc (pc_rank (task_pc t))"
      using \<open>n \<le> _\<close> \<open>pc_rank (task_pc ?t) < _\<close> by simp
    ultimately show ?thesis by blast
  qed
qed

subsection \<open>Properties of the running screen\<close>

text \<open>
  C30. Exactly one capture cycle at most is in flight, in every reachable state of the
  screen, whatever the order of presses, collaborator answers, LiDAR answers and the
  unmount; while the screen is mounted, \<open>analyzing\<close> holds exactly when a cycle is in
  flight.
\<close>

theorem one_cycle_in_flight:
  assumes "ui_reachable u"
  shows "length (ui_tasks u) \<le> 1 \<and> (ui_mounted u \<longrightarrow> (analyzing (ui_screen u) \<longleftrightarrow> ui_tasks u \<noteq> []))"
  using ui_reachable_inv [OF assms] by (simp add: ui_inv_def)

theorem one_cycle_in_flight_witness:
  "ui_reachable pressed_state \<and> length (ui_tasks pressed_state) \<le> 1 \<and>
   analyzing (ui_screen pressed_state) \<and> ui_tasks pressed_state \<noteq> []"
  using pressed_state_reachable one_cycle_in_flight [OF pressed_state_reachable]
  by (simp add: pressed_state_def ui_init_def)

text \<open>
  C31. Every cycle in flight completes: from every reachable state, at most four
  resumptions lead to a state with no cycle in flight and, while mounted, the busy flag
  cleared.
\<close>

theorem ui_cycle_completes:
  assumes "ui_reachable u"
  shows "\<exists>n u'. n \<le> 4 \<and> (ui_step ^^ n) u u' \<and> ui_tasks u' = [] \<and> (ui_mounted u' \<longrightarrow> \<not> analyzing (ui_screen u'))"
proof (cases "ui_tasks u")
  case Nil
  with ui_reachable_inv [OF assms] show ?thesis
    by (intro exI [of _ 0] exI [of _ u]) (simp add: ui_inv_def)
next
  case (Cons t ts)
  with ui_reachable_inv [OF assms] have one: "ui_tasks u = [t]" by (simp add: ui_inv_def)
  from ui_drain [OF one] obtain n u' where n: "n \<le> Suc (pc_rank (task_pc t))" and "(ui_step ^^ n) u u'"
    "ui_tasks u' = []" "ui_mounted u' \<longrightarrow> \<not> analyzing (ui_screen u')" by blast
  moreover have "n \<le> 4" using n pc_rank_le [of "task_pc t"] by linarith
  ultimately show ?thesis by blast
qed

theorem ui_cycle_completes_witness:
  "ui_reachable pressed_state \<and>
   (\<exists>n u'. n \<le> 4 \<and> (ui_step ^^ n) pressed_state u' \<and> ui_tasks u' = [])"
  using pressed_state_reachable ui_cycle_completes [OF pressed_state_reachable] by blast

text \<open>
  C32. A cycle outlives the screen: from a reachable state where the screen is unmounted
  while a cycle waits for the camera, the resumptions of that cycle alone upload the
  photo, ask for its labels and speak the description, although React drops the
  cycle's state updates.
\<close>

theorem cycle_outlives_screen:
  "\<exists>u v. ui_reachable u \<and> \<not> ui_mounted u \<and> ui_tasks u \<noteq> [] \<and> ui_step\<^sup>*\<^sup>* u v \<and> ui_tasks v = [] \<and>
         ui_trace v = ui_trace u @
           speak_trace example_env ''Analyzing''
           @ [S3PutObject ''your-bucket-name'' (analysis_key 1700000000000) (map word_of_nat [65, 66, 67]),
              RekognitionDetectLabels ''your-bucket-name'' (analysis_key 1700000000000) 10 70]
           @ speak_trace example_env ''Objects detected. I see a chair about 8 to 10 feet away on your left.''"
proof -
  let ?st1 = "initial_screen\<lparr>analyzing := True\<rparr>"
  let ?tr1 = "speak_trace example_env ''Opening camera'' @ [CameraTakePicture]"
  let ?u1 = "ui_init\<lparr>ui_screen := ?st1, ui_trace := ?tr1, ui_tasks := [example_task Await_Camera]\<rparr>"
  have r1: "ui_reachable ?u1"
    using pressed_state_reachable by (simp add: pressed_state_def)
  let ?u2 = "?u1\<lparr>ui_mounted := False\<rparr>"
  have r2: "ui_reachable ?u2"
    by (rule ui_reachable_stepI [OF r1 ui_step.unmount]) (simp_all add: ui_init_def)
  let ?tr3 = "?tr1 @ speak_trace example_env ''Analyzing''
                @ [S3PutObject ''your-bucket-name'' (analysis_key 1700000000000) (map word_of_nat [65, 66, 67])]"
  let ?u3 = "?u2\<lparr>ui_trace := ?tr3, ui_tasks := [example_task Await_Upload]\<rparr>"
  have s3: "ui_step ?u2 ?u3"
    by (rule ui_stepI [OF ui_step.resume [where i = 0 and t = "example_task Await_Camera"
          and r = "Some Await_Upload" and st' = "?st1\<lparr>result := ''Analyzing image...''\<rparr>" and tr' = ?tr3]])
       (simp_all add: ui_init_def resume_camera_apply photo_data_def example_defs example_task_def resumed_tasks_def)
  let ?tr4 = "?tr3 @ [RekognitionDetectLabels ''your-bucket-name'' (analysis_key 1700000000000) 10 70]"
  let ?u4 = "?u3\<lparr>ui_trace := ?tr4, ui_tasks := [example_task Await_Detect]\<rparr>"
  have s4: "ui_step ?u3 ?u4"
    by (rule ui_stepI [OF ui_step.resume [where i = 0 and t = "example_task Await_Upload"
          and r = "Some Await_Detect" and st' = ?st1 and tr' = ?tr4]])
       (simp_all add: ui_init_def resume_upload_apply example_defs example_task_def resumed_tasks_def)
  let ?u5 = "?u4\<lparr>ui_trace := ?tr4 @ speak_trace example_env ''Objects detected. I see a chair about 8 to 10 feet away on your left.'', ui_tasks := []\<rparr>"
  have s5: "ui_step ?u4 ?u5"
    by (rule ui_stepI [OF ui_step.resume [where i = 0 and t = "example_task Await_Detect"
          and r = None and st' = "?st1\<lparr>result := ''Objects detected. I see a chair about 8 to 10 feet away on your left.'', analyzing := False\<rparr>"
          and tr' = "?tr4 @ speak_trace example_env ''Objects detected. I see a chair about 8 to 10 feet away on your left.''"]])
       (simp_all add: ui_init_def resume_detect_apply example_defs example_task_def resumed_tasks_def
         initial_screen_def js_eval speak_trace_def)
  have run: "ui_step\<^sup>*\<^sup>* ?u2 ?u5"
    using s3 s4 s5 by (meson rtranclp.rtrancl_refl rtranclp.rtrancl_into_rtrancl)
  have "\<not> ui_mounted ?u2" and "ui_tasks ?u2 \<noteq> []" and "ui_tasks ?u5 = []" by simp_all
  moreover have "ui_trace ?u5 = ui_trace ?u2 @
           speak_trace example_env ''Analyzing''
           @ [S3PutObject ''your-bucket-name'' (analysis_key 1700000000000) (map word_of_nat [65, 66, 67]),
              RekognitionDetectLabels ''your-bucket-name'' (analysis_key 1700000000000) 10 70]
           @ speak_trace example_env ''Objects detected. I see a chair about 8 to 10 feet away on your left.''"
    by simp
  ultimately show ?thesis using r2 run by blast
qed

end
