(* ===== verification/Spec2Isabelle.thy ===== *)
theory Spec2Isabelle
  imports Lidar_Lifecycle Screen_Events
begin

text \<open>
  \<^bold>\<open>SeeWithYou: a verification development of the label-to-speech screen.\<close>

  The repository is one React Native screen, \<open>src/app/(tabs)/index.tsx\<close>
  (\<open>HomeScreen\<close>). A tap on the capture button runs \<open>takePicture\<close>: it speaks
  "Opening camera", takes a photo through the native \<open>CameraModule\<close>, uploads the bytes
  to S3 under \<open>analysis/<timestamp>.jpg\<close>, asks Rekognition's \<open>DetectLabels\<close> for the
  labels of that object, keeps the physical objects, reads the LiDAR distance at the
  centre of the view when the device has one, turns all this into one sentence, shows it
  and speaks it. Errors end the cycle with an apology; a cancelled capture ends it
  silently; the \<open>analyzing\<close> flag guards against a second cycle and is cleared at the end.

  \<^bold>\<open>Theories.\<close>
  \<^item> \<open>Prelude\<close>: the JavaScript primitives the screen relies on. Numbers are \<open>real\<close>
    (exact arithmetic), optional numbers \<open>real option\<close>; \<open>toLowerCase\<close> is
    \<open>to_lower\<close> (ASCII letters), \<open>s.includes(p)\<close> is \<open>str_includes\<close> (proved equal to
    \<open>sublist\<close>), \<open>x || 0\<close> is \<open>js_or0\<close>, \<open>!x\<close> on a number-or-null is
    \<open>js_falsy_num\<close>, \<open>Math.round\<close> is \<open>js_round\<close> (\<open>\<lfloor>x + 1/2\<rfloor>\<close>, ties up, as
    ECMAScript specifies), and printing a value \<open>k/10\<close> is \<open>show_tenths k\<close>; the
    reader \<open>read_tenths\<close> is the reference for what a printed number denotes.
  \<^item> \<open>Labels\<close>: the response records \<open>label\<close>, \<open>rek_instance\<close>, \<open>bounding_box\<close>
    (every field optional, as in the SDK) and the filter of lines 146--164:
    \<open>excludeCategories\<close>, \<open>filter_name\<close>, \<open>is_physical\<close>, \<open>physical_objects\<close>,
    with the reference predicates \<open>denylisted\<close> and \<open>located\<close>.
  \<^item> \<open>Box_Estimate\<close>: lines 189--244, the first instance's box: \<open>box_area\<close>,
    \<open>distance_phrase\<close>, \<open>center_x\<close>, \<open>center_y\<close>, \<open>horizontal_phrase\<close>,
    \<open>vertical_phrase\<close>, \<open>combine_direction\<close>, \<open>direction_at\<close>,
    \<open>direction_phrase\<close>, \<open>label_estimate\<close>; abstractly five ordered distance buckets
    (\<open>distance_bucket\<close>, a \<open>linorder\<close> instance, near to far) and nine regions
    (\<open>vpos\<close>, \<open>hpos\<close>, \<open>region_phrase\<close>).
  \<^item> \<open>Description\<close>: lines 166--265: \<open>lead_sentence\<close>, \<open>display_name\<close>,
    \<open>object_clause\<close>, the \<open>forEach\<close> as \<open>append_clauses\<close>, and \<open>describe\<close>;
    abstractly a \<open>narration\<close> (lead value and clauses) computed by \<open>narrate\<close> and
    rendered by \<open>render\<close>.
  \<^item> \<open>Js_Async\<close>: the control flow of an \<open>async\<close> function as plain definitions: a
    computation on a state that returns a value or throws a \<open>js_error\<close> (code,
    message, \<open>toString\<close>); \<open>js_bind\<close> is \<open>await\<close>, \<open>js_catch\<close> and \<open>js_finally\<close> are
    \<open>try\<close>/\<open>catch\<close>/\<open>finally\<close>, \<open>js_total\<close> says a computation never throws.
  \<^item> \<open>Capture_Cycle\<close>: lines 55--285. The React state is the record \<open>screen\<close>
    (\<open>analyzing\<close>, \<open>result\<close>, \<open>hasLiDAR\<close>, \<open>arSessionActive\<close>); every call to a
    collaborator is an \<open>effect\<close> appended to a trace; the collaborators' answers for one
    cycle are the fields of \<open>cycle_env\<close> (a rejected promise is an \<open>Inl\<close> error).
    \<open>speakText\<close>, \<open>getARKitDistance\<close>, \<open>base64ToUint8Array\<close> (the loop
    \<open>fill_bytes\<close> into \<open>8 word\<close> bytes), the \<open>try\<close> body \<open>analyze\<close>, the \<open>catch\<close>
    block \<open>on_error\<close> and \<open>takePicture\<close> follow the code statement by statement. The
    guard and the LiDAR test read the state the handler closed over. The lemma
    \<open>takePicture_outcome\<close> proves the async code equal to \<open>cycle_outcome\<close>, a decision
    tree over the answers, from which the cycle's properties are read.
  \<^item> \<open>Lidar_Lifecycle\<close>: lines 24--53. The life of the screen as an inductive step
    relation \<open>lifecycle_step\<close> over \<open>app_state\<close> (the screen state, whether it is
    mounted, the phase of the asynchronous \<open>checkLiDAR\<close>, the flag captured by the
    effect's clean-up, whether the native session runs, the native calls made): mount,
    the availability answer or its error, the session start or its error, taps running
    a whole capture cycle, and unmount, in any interleaving. \<open>reachable\<close> is the set
    of states reachable from the first render; \<open>lifecycle_inv\<close> is its inductive
    invariant.
  \<^item> \<open>Screen_View\<close>: lines 287--434. The element tree the component returns,
    \<open>home_view\<close>, over a datatype \<open>view\<close> of the four React Native elements it uses,
    and the style sheet \<open>styles\<close> property by property; \<open>flatten_style\<close> merges a
    style array as React Native does (later entries win, \<open>false\<close> is skipped).
  \<^item> \<open>Cycle_Steps\<close>: \<open>takePicture\<close> cut at its awaits on the camera, S3, Rekognition and
    the depth read. \<open>start_cycle\<close> is what a press runs synchronously; \<open>resume_cycle\<close>
    runs from one await to the next; \<open>cycle_segment\<close> spreads the
    \<open>try\<close>/\<open>catch\<close>/\<open>finally\<close> over the segments; \<open>run_cycle\<close> settles the awaits
    one after the other.
  \<^item> \<open>Screen_Events\<close>: the mounted screen as an event system \<open>ui_step\<close> over
    \<open>ui_state\<close> (screen state, trace, mounted flag, cycles in flight): presses through
    the enabled button, resumptions of suspended cycles, the LiDAR answers, the unmount,
    in any order.
  \<^item> this theory: the properties that span several components (the filter with the
    synthesis, the cycle with the rendered screen) and \<open>cycle_error\<close>, the error that
    ends a cycle.

  \<^bold>\<open>What is proved.\<close>
  The central result is the refinement \<open>describe_render\<close>: the string the code builds
  is the rendering of the abstract narration, for every input. The filter is
  characterised by \<open>sublist\<close> (denylisted names are dropped, labels without instances
  are dropped, order is kept); the distance buckets are monotone in the box area; the
  direction phrase follows the nine-region table and decodes back to its region; the
  fallback is spoken exactly when no object is left; at most the first three objects are
  narrated, the first three located and non-denylisted labels in their order; a
  non-zero measured distance suppresses every per-object distance; the measured
  distance is announced as \<open>Math.round(d * 10)\<close> tenths (the printed number reads back
  as that value, \<open>read_show_tenths\<close>), within a twentieth of a foot. Divergences: a
  measured distance of exactly zero keeps the per-object distances (the test
  \<open>!realDistance\<close>); the denylist is matched by substring (\<open>denylisted\<close> is
  \<open>sublist\<close>), so concrete objects such as a wallet ("wall"), a smartphone ("art") or a
  mushroom ("room") are dropped.
  For the capture cycle: a tap during a cycle does nothing; every cycle ends with the
  busy flag cleared; a cancelled capture stops after the camera call with no upload,
  analysis or speech; success shows and speaks the description after exactly the
  expected sequence of calls; an upload failure requests no analysis and shows the
  error; every label detection follows the upload of its key; a failed depth read is
  invisible; the handler never rejects; every utterance follows a \<open>Speech.stop\<close>; the
  byte conversion wraps modulo 256 and is lossless on binary strings.
  For the lifecycle, by rule induction over the reachable states: the screen's session
  flag agrees with the native session, and the clean-up, which closes over the first
  render, never calls \<open>stopDepthSession\<close>, so a session started while the screen is
  mounted outlives it (a divergence from the design's teardown on shutdown).
  For the rendering: the tree names only defined styles and has no empty text; it has
  one button, disabled exactly while \<open>analyzing\<close> holds, whose effective style differs
  from \<open>captureButton\<close> in exactly its two colours then.
  After a cycle started from an idle screen the button is enabled again, and the
  instructions return exactly when the error that ended the cycle has the code
  \<open>CANCELLED\<close>, whichever call raised it: a divergence, since the design
  reserves the silent reset for a capture the user cancelled.
  For the suspended cycle, the lemma \<open>cycle_steps_equiv\<close> checks the segmentation
  against \<open>takePicture\<close>: running the segments with nothing in between gives exactly
  its result. For the running screen, by rule induction over its reachable states: at
  most one cycle is in flight and, while mounted, \<open>analyzing\<close> holds exactly when one
  is; from every reachable state four resumptions end the cycle in flight with the busy
  flag cleared. A run from an unmounted state shows a cycle that still uploads, asks
  for labels and speaks (behaviour the design does not cover).

  \<^bold>\<open>Not modelled, and why.\<close>
  IEEE double rounding (the thresholds are compared in exact arithmetic; an area or a
  centre within one ulp of a threshold may fall on the other side in the running code);
  number printing beyond one decimal or above \<open>10^21\<close> (exponent notation); Unicode case
  mapping beyond ASCII; layout and drawing of the element tree (only its structure,
  texts, props and styles are modelled); the AWS configuration (lines 11--21), constants
  read from the environment with no logic, of which only \<open>S3_BUCKET\<close> is used (as the
  \<open>s3_bucket\<close> answer of \<open>cycle_env\<close>); the AWS SDK, the native camera, LiDAR and speech modules, which are
  collaborators outside the repository. A depth reading whose object lacks a
  \<open>distance\<close> field (which JavaScript would print as \<open>NaN\<close>) is outside the model:
  the reading is a number or absent. Thrown values are records with a code, a message
  and a printed form: a promise rejected with \<open>null\<close> or \<open>undefined\<close>, for which
  \<open>error.message\<close> (line 82) or \<open>error.code\<close> (line 271) would itself throw inside the
  \<open>catch\<close>, is not representable.

  \<^bold>\<open>Collaborators and bounds.\<close>
  A cycle is modelled with one answer per collaborator call, so no loop and no fuel
  are needed; the only loop of the screen, the byte conversion, terminates by the
  measure \<open>length s - i\<close>. Speech is modelled by its call order (stop, then speak);
  audio playback itself is not observable here. A cycle suspends only at the four
  awaits on collaborators whose answers are modelled; the awaits on \<open>speakText\<close>
  stay inside their segment. Four resumptions suffice because each one moves to a
  later await (\<open>pc_rank\<close> decreases from 3). Presses reach the handler after React has
  committed the previous render, so the handler's closure is the current screen; the
  LiDAR answers are an event that may set the two flags at any time.

  \<^bold>\<open>Plan for the remaining parts.\<close>
  Joining \<open>Lidar_Lifecycle\<close> and \<open>Screen_Events\<close> into one event system, so that the
  depth session and the cycles in flight are reasoned about together (a cycle closes
  over \<open>hasLiDAR\<close> before the availability answer). Presses delivered before React
  commits a render (a stale closure), to measure what the \<open>disabled\<close> prop and the
  \<open>analyzing\<close> guard each protect. A reader for the whole spoken sentence (a parse of
  \<open>render\<close>) to recover the narration from the text.
\<close>

text \<open>
  The error that ends a cycle, if any: the first rejected or thrown value of the
  \<open>try\<close> block, in the order of the code.
\<close>

definition cycle_error :: "cycle_env \<Rightarrow> js_error option" where
  "cycle_error env =
     (case capture_result env of
        Inl e \<Rightarrow> Some e
      | Inr photo \<Rightarrow>
        (case photo_data photo of
           None \<Rightarrow> Some no_image_data
         | Some b64 \<Rightarrow>
           (case atob env b64 of
              Inl e \<Rightarrow> Some e
            | Inr bin \<Rightarrow>
              (case upload_result env of
                 Some e \<Rightarrow> Some e
               | None \<Rightarrow> (case detect_result env of Inl e \<Rightarrow> Some e | Inr labels \<Rightarrow> None)))))"

subsection \<open>Filter and synthesis together\<close>


subsection \<open>A cycle seen on the screen\<close>

lemma cycle_end_result:
  assumes "\<not> analyzing st" and "camera_module env"
  shows "\<not> analyzing (fst (takePicture env st)) \<and>
         (result (fst (takePicture env st)) = [] \<longleftrightarrow> (\<exists>e. cycle_error env = Some e \<and> err_code e = Some ''CANCELLED'')) \<and>
         (result (fst (takePicture env st)) \<noteq> [] \<longrightarrow> hd (result (fst (takePicture env st))) \<in> {CHR ''O'', CHR ''N'', CHR ''A''})"
  using assms describe_hd [of _ _] describe_nonempty
  by (auto simp: takePicture_outcome outcome_unfold cycle_error_def no_image_data_def split: sum.split option.split)

text \<open>
  C14. After a cycle started from an idle screen, the button is enabled again, and the
  instructions are back on screen exactly when the error that ended the cycle has the
  code \<open>CANCELLED\<close>; otherwise the result panel shows the cycle's message. The code
  tests the code of any error of the \<open>try\<close> block, not only the camera's.
\<close>

theorem cycle_end_screen:
  assumes "\<not> analyzing st" and "camera_module env"
  shows "buttons (home_view (fst (takePicture env st))) = [(False, ''Take picture and analyze'')] \<and>
         (instruction_text \<in> set (texts (home_view (fst (takePicture env st))))
            \<longleftrightarrow> (\<exists>e. cycle_error env = Some e \<and> err_code e = Some ''CANCELLED''))"
proof -
  let ?st = "fst (takePicture env st)"
  have r: "\<not> analyzing ?st"
    "result ?st = [] \<longleftrightarrow> (\<exists>e. cycle_error env = Some e \<and> err_code e = Some ''CANCELLED'')"
    "result ?st \<noteq> [] \<longrightarrow> hd (result ?st) \<in> {CHR ''O'', CHR ''N'', CHR ''A''}"
    using cycle_end_result [OF assms] by blast+
  have ne: "result ?st \<noteq> instruction_text"
    using r(3) by (auto simp: instruction_text_def)
  show ?thesis
    using r ne by (auto simp: buttons_home_view home_texts instruction_text_def satellite_emoji_def camera_emoji_def)
qed

theorem cycle_end_screen_witness:
  "\<not> analyzing example_screen \<and> camera_module (example_env\<lparr>upload_result := Some cancelled_error\<rparr>) \<and>
   buttons (home_view (fst (takePicture (example_env\<lparr>upload_result := Some cancelled_error\<rparr>) example_screen)))
     = [(False, ''Take picture and analyze'')] \<and>
   instruction_text \<in> set (texts (home_view (fst (takePicture (example_env\<lparr>upload_result := Some cancelled_error\<rparr>) example_screen))))"
proof -
  have h: "\<not> analyzing example_screen" "camera_module (example_env\<lparr>upload_result := Some cancelled_error\<rparr>)"
    by (simp_all add: example_defs)
  show ?thesis
    using h cycle_end_screen [OF h] by (simp add: example_defs cycle_error_def photo_data_def)
qed
end
